theory Spec2Isabelle
  imports Main "HOL-Library.AList"
begin

section \<open>Python values\<close>

text \<open>
  The values that travel through \<^verbatim>\<open>server.py\<close> are decoded JSON documents: the argument
  mapping of an invocation, the payloads built by the client methods and the bodies returned
  by \<^verbatim>\<open>response.json()\<close>. A Python \<^verbatim>\<open>dict\<close> keeps insertion order, so an object is an
  association list; \<^verbatim>\<open>None\<close> is \<open>JNull\<close>. A Python string is a list of 8-bit characters,
  read as the code points 0..255. Floating-point numbers are not part of the embedding.
\<close>

datatype json =
    JNull
  | JBool bool
  | JInt int
  | JStr string
  | JArr "json list"
  | JObj "(string \<times> json) list"

text \<open>Truth value testing, as in \<^verbatim>\<open>if query\<close>, \<^verbatim>\<open>if properties\<close>, \<^verbatim>\<open>if sorts\<close>.\<close>

fun truthy :: "json \<Rightarrow> bool" where
  "truthy JNull = False"
| "truthy (JBool b) = b"
| "truthy (JInt i) = (i \<noteq> 0)"
| "truthy (JStr s) = (s \<noteq> [])"
| "truthy (JArr xs) = (xs \<noteq> [])"
| "truthy (JObj kvs) = (kvs \<noteq> [])"

subsection \<open>Numbers and characters as text\<close>

definition digit_char :: "nat \<Rightarrow> char" where
  "digit_char d = char_of (48 + d)"

fun dec :: "nat \<Rightarrow> string" where
  "dec n = (if n < 10 then [digit_char n] else dec (n div 10) @ [digit_char (n mod 10)])"

declare dec.simps [simp del]

definition int_str :: "int \<Rightarrow> string" where
  "int_str i = (if i < 0 then CHR ''-'' # dec (nat (- i)) else dec (nat i))"

definition hex_char :: "nat \<Rightarrow> char" where
  "hex_char d = (if d < 10 then char_of (48 + d) else char_of (87 + d))"

definition hex2 :: "char \<Rightarrow> string" where
  "hex2 c = [hex_char (of_char c div 16), hex_char (of_char c mod 16)]"

subsection \<open>\<^verbatim>\<open>repr\<close> and \<^verbatim>\<open>str\<close>\<close>

text \<open>
  \<^verbatim>\<open>repr\<close> of a string picks the quote (double quotes only when the string holds a single
  quote and no double quote), escapes the quote, the backslash, tab, newline and carriage
  return, and writes every other non-printable character as \<^verbatim>\<open>\xNN\<close>. Among the code points
  128..255 the non-printable ones are 128..160 and 173.
\<close>

definition repr_quote :: "string \<Rightarrow> char" where
  "repr_quote s = (if CHR 0x27 \<in> set s \<and> CHR 0x22 \<notin> set s then CHR 0x22 else CHR 0x27)"

definition printable :: "char \<Rightarrow> bool" where
  "printable c = (let n = (of_char c :: nat) in
     (32 \<le> n \<and> n < 127) \<or> (160 < n \<and> n \<noteq> 173))"

definition repr_char :: "char \<Rightarrow> char \<Rightarrow> string" where
  "repr_char q c =
     (if c = q \<or> c = CHR 0x5C then [CHR 0x5C, c]
      else if c = CHR 0x09 then [CHR 0x5C, CHR ''t'']
      else if c = CHR 0x0A then [CHR 0x5C, CHR ''n'']
      else if c = CHR 0x0D then [CHR 0x5C, CHR ''r'']
      else if printable c then [c]
      else [CHR 0x5C, CHR ''x''] @ hex2 c)"

definition str_repr :: "string \<Rightarrow> string" where
  "str_repr s = (let q = repr_quote s in [q] @ concat (map (repr_char q) s) @ [q])"

fun join :: "string \<Rightarrow> string list \<Rightarrow> string" where
  "join sep [] = []"
| "join sep [x] = x"
| "join sep (x # y # ys) = x @ sep @ join sep (y # ys)"

fun py_repr :: "json \<Rightarrow> string" where
  "py_repr JNull = ''None''"
| "py_repr (JBool b) = (if b then ''True'' else ''False'')"
| "py_repr (JInt i) = int_str i"
| "py_repr (JStr s) = str_repr s"
| "py_repr (JArr xs) = ''['' @ join '', '' (map py_repr xs) @ '']''"
| "py_repr (JObj kvs) =
     ''{'' @ join '', '' (map (\<lambda>(k, v). str_repr k @ '': '' @ py_repr v) kvs) @ ''}''"

text \<open>\<^verbatim>\<open>str(v)\<close>, which an f-string applies to an interpolated value.\<close>

fun py_str :: "json \<Rightarrow> string" where
  "py_str (JStr s) = s"
| "py_str v = py_repr v"

section \<open>\<^verbatim>\<open>json.dumps\<close> with an indent\<close>

text \<open>
  The encoder of the standard library with \<^verbatim>\<open>ensure_ascii\<close> on: inside a string the double
  quote, the backslash and the control characters with a short form get a two-character
  escape, every other character outside \<^verbatim>\<open>' '..'~'\<close> becomes \<^verbatim>\<open>\u00NN\<close>.
\<close>

definition escape_char :: "char \<Rightarrow> string" where
  "escape_char c =
     (if c = CHR 0x22 then [CHR 0x5C, CHR 0x22]
      else if c = CHR 0x5C then [CHR 0x5C, CHR 0x5C]
      else if c = CHR 0x0A then [CHR 0x5C, CHR ''n'']
      else if c = CHR 0x0D then [CHR 0x5C, CHR ''r'']
      else if c = CHR 0x09 then [CHR 0x5C, CHR ''t'']
      else if c = CHR 0x08 then [CHR 0x5C, CHR ''b'']
      else if c = CHR 0x0C then [CHR 0x5C, CHR ''f'']
      else if 32 \<le> (of_char c :: nat) \<and> (of_char c :: nat) < 127 then [c]
      else [CHR 0x5C, CHR ''u'', CHR ''0'', CHR ''0''] @ hex2 c)"

definition encode_basestring_ascii :: "string \<Rightarrow> string" where
  "encode_basestring_ascii s = [CHR 0x22] @ concat (map escape_char s) @ [CHR 0x22]"

definition newline_indent :: "nat \<Rightarrow> nat \<Rightarrow> string" where
  "newline_indent ind lvl = CHR 0x0A # replicate (ind * lvl) (CHR '' '')"

text \<open>
  With an indent the item separator is a comma followed by the newline and the indentation
  of the current level, the key separator is a colon and a space, and an empty list or
  dict is written without any newline.
\<close>

fun iterencode :: "nat \<Rightarrow> nat \<Rightarrow> json \<Rightarrow> string"
  and iterencode_list :: "nat \<Rightarrow> nat \<Rightarrow> json list \<Rightarrow> string"
  and iterencode_dict :: "nat \<Rightarrow> nat \<Rightarrow> (string \<times> json) list \<Rightarrow> string"
where
  "iterencode ind lvl JNull = ''null''"
| "iterencode ind lvl (JBool b) = (if b then ''true'' else ''false'')"
| "iterencode ind lvl (JInt i) = int_str i"
| "iterencode ind lvl (JStr s) = encode_basestring_ascii s"
| "iterencode ind lvl (JArr xs) =
     (if xs = [] then ''[]''
      else ''['' @ newline_indent ind (Suc lvl) @ iterencode_list ind (Suc lvl) xs
           @ newline_indent ind lvl @ '']'')"
| "iterencode ind lvl (JObj kvs) =
     (if kvs = [] then ''{}''
      else ''{'' @ newline_indent ind (Suc lvl) @ iterencode_dict ind (Suc lvl) kvs
           @ newline_indent ind lvl @ ''}'')"
| "iterencode_list ind lvl [] = []"
| "iterencode_list ind lvl (x # xs) =
     iterencode ind lvl x
     @ (if xs = [] then [] else '','' @ newline_indent ind lvl @ iterencode_list ind lvl xs)"
| "iterencode_dict ind lvl [] = []"
| "iterencode_dict ind lvl (kv # kvs) =
     encode_basestring_ascii (fst kv) @ '': '' @ iterencode ind lvl (snd kv)
     @ (if kvs = [] then [] else '','' @ newline_indent ind lvl @ iterencode_dict ind lvl kvs)"

text \<open>\<^verbatim>\<open>json.dumps(obj, indent=ind)\<close>.\<close>

definition dumps :: "nat \<Rightarrow> json \<Rightarrow> string" where
  "dumps ind obj = iterencode ind 0 obj"

section \<open>Exceptions\<close>

text \<open>
  The classes of \<^verbatim>\<open>httpx\<close> for a request that got no response: the timeouts, the network
  errors, and any other exception the call raises (an invalid URL, for one), kept by its
  class name.
\<close>

datatype httpx_error =
    ConnectTimeout | ReadTimeout | WriteTimeout | PoolTimeout
  | ConnectError | ReadError | WriteError | CloseError
  | OtherError string

text \<open>
  What \<^verbatim>\<open>response.json()\<close> raises on a body that is no JSON document: a decode error of the
  \<^verbatim>\<open>json\<close> module, or a \<^verbatim>\<open>UnicodeDecodeError\<close> when the bytes are not in the detected
  encoding; each with its message.
\<close>

datatype decode_error = JSONDecode string | UnicodeDecode string

text \<open>
  An HTTP response as the client method sees it: the status line, the URL of the request
  as \<^verbatim>\<open>httpx\<close> has normalised it (\<^verbatim>\<open>response.url\<close>; a space in the path, for one, is
  percent-encoded there), the \<^verbatim>\<open>Location\<close> header when there is one, the body text, and what
  \<^verbatim>\<open>response.json()\<close> makes of the body: the decoded document or the error raised.
\<close>

record response =
  status_code :: nat
  reason_phrase :: string
  response_url :: string
  location :: "string option"
  body_text :: string
  body_json :: "decode_error + json"

datatype exn =
    KeyError string
  | ValueError string
  | TypeError string
  | HTTPStatusError string response
  | TransportError httpx_error string
  | JSONDecodeError string
  | UnicodeDecodeError string

definition quoted :: "string \<Rightarrow> string" where
  "quoted s = [CHR 0x27] @ s @ [CHR 0x27]"

text \<open>\<^verbatim>\<open>str(e)\<close>: a \<^verbatim>\<open>KeyError\<close> shows the \<^verbatim>\<open>repr\<close> of its key, the others their message.\<close>

fun exn_str :: "exn \<Rightarrow> string" where
  "exn_str (KeyError k) = str_repr k"
| "exn_str (ValueError m) = m"
| "exn_str (TypeError m) = m"
| "exn_str (HTTPStatusError m r) = m"
| "exn_str (TransportError k m) = m"
| "exn_str (JSONDecodeError m) = m"
| "exn_str (UnicodeDecodeError m) = m"

fun httpx_error_name :: "httpx_error \<Rightarrow> string" where
  "httpx_error_name ConnectTimeout = ''ConnectTimeout''"
| "httpx_error_name ReadTimeout = ''ReadTimeout''"
| "httpx_error_name WriteTimeout = ''WriteTimeout''"
| "httpx_error_name PoolTimeout = ''PoolTimeout''"
| "httpx_error_name ConnectError = ''ConnectError''"
| "httpx_error_name ReadError = ''ReadError''"
| "httpx_error_name WriteError = ''WriteError''"
| "httpx_error_name CloseError = ''CloseError''"
| "httpx_error_name (OtherError n) = n"

text \<open>\<^verbatim>\<open>type(e).__name__\<close>.\<close>

fun exn_name :: "exn \<Rightarrow> string" where
  "exn_name (KeyError k) = ''KeyError''"
| "exn_name (ValueError m) = ''ValueError''"
| "exn_name (TypeError m) = ''TypeError''"
| "exn_name (HTTPStatusError m r) = ''HTTPStatusError''"
| "exn_name (TransportError k m) = httpx_error_name k"
| "exn_name (JSONDecodeError m) = ''JSONDecodeError''"
| "exn_name (UnicodeDecodeError m) = ''UnicodeDecodeError''"

section \<open>Dictionaries\<close>

text \<open>\<^verbatim>\<open>arguments[key]\<close> and \<^verbatim>\<open>arguments.get(key, default)\<close> on the argument mapping.\<close>

definition getitem :: "(string \<times> json) list \<Rightarrow> string \<Rightarrow> exn + json" where
  "getitem d k = (case map_of d k of None \<Rightarrow> Inl (KeyError k) | Some v \<Rightarrow> Inr v)"

definition dict_get :: "(string \<times> json) list \<Rightarrow> string \<Rightarrow> json \<Rightarrow> json" where
  "dict_get d k dflt = (case map_of d k of None \<Rightarrow> dflt | Some v \<Rightarrow> v)"

text \<open>
  \<^verbatim>\<open>dict.update(other)\<close> takes a mapping or any iterable of two-element sequences, and the
  keys it stores need not be strings. So the dict under \<^verbatim>\<open>payload["properties"]\<close> has keys
  of type \<open>pykey\<close>; \<^verbatim>\<open>True\<close> and \<^verbatim>\<open>1\<close> (and \<^verbatim>\<open>False\<close> and \<^verbatim>\<open>0\<close>) are the same key, and an
  assignment to a key that is present keeps the key and its position.
\<close>

datatype pykey = KStr string | KInt int | KBool bool | KNone

fun key_norm :: "pykey \<Rightarrow> pykey" where
  "key_norm (KBool b) = KInt (if b then 1 else 0)"
| "key_norm k = k"

fun setitem :: "pykey \<Rightarrow> json \<Rightarrow> (pykey \<times> json) list \<Rightarrow> (pykey \<times> json) list" where
  "setitem k v [] = [(k, v)]"
| "setitem k v (p # ps) =
     (if key_norm (fst p) = key_norm k then (fst p, v) # ps else p # setitem k v ps)"

text \<open>The elements of an item of the iterable, when the item is itself iterable.\<close>

fun sequence_fast :: "json \<Rightarrow> json list option" where
  "sequence_fast (JArr xs) = Some xs"
| "sequence_fast (JStr s) = Some (map (\<lambda>c. JStr [c]) s)"
| "sequence_fast (JObj kvs) = Some (map (\<lambda>kv. JStr (fst kv)) kvs)"
| "sequence_fast v = None"

fun hashable :: "json \<Rightarrow> exn + pykey" where
  "hashable (JStr s) = Inr (KStr s)"
| "hashable (JInt i) = Inr (KInt i)"
| "hashable (JBool b) = Inr (KBool b)"
| "hashable JNull = Inr KNone"
| "hashable (JArr xs) = Inl (TypeError (''unhashable type: '' @ quoted ''list''))"
| "hashable (JObj kvs) = Inl (TypeError (''unhashable type: '' @ quoted ''dict''))"

fun merge_from_seq2 :: "nat \<Rightarrow> json list \<Rightarrow> (pykey \<times> json) list \<Rightarrow> exn + (pykey \<times> json) list" where
  "merge_from_seq2 i [] d = Inr d"
| "merge_from_seq2 i (item # items) d =
     (case sequence_fast item of
        None \<Rightarrow> Inl (TypeError (''cannot convert dictionary update sequence element #''
                  @ dec i @ '' to a sequence''))
      | Some [k, v] \<Rightarrow>
          (case hashable k of
             Inl e \<Rightarrow> Inl e
           | Inr key \<Rightarrow> merge_from_seq2 (Suc i) items (setitem key v d))
      | Some es \<Rightarrow> Inl (ValueError (''dictionary update sequence element #'' @ dec i
                  @ '' has length '' @ dec (length es) @ ''; 2 is required'')))"

fun dict_update :: "(pykey \<times> json) list \<Rightarrow> json \<Rightarrow> exn + (pykey \<times> json) list" where
  "dict_update d (JObj kvs) = Inr (fold (\<lambda>kv. setitem (KStr (fst kv)) (snd kv)) kvs d)"
| "dict_update d (JArr items) = merge_from_seq2 0 items d"
| "dict_update d (JStr s) = merge_from_seq2 0 (map (\<lambda>c. JStr [c]) s) d"
| "dict_update d (JInt i) = Inl (TypeError (quoted ''int'' @ '' object is not iterable''))"
| "dict_update d (JBool b) = Inl (TypeError (quoted ''bool'' @ '' object is not iterable''))"
| "dict_update d JNull = Inl (TypeError (quoted ''NoneType'' @ '' object is not iterable''))"

text \<open>A dict all of whose keys are strings.\<close>

definition str_keys :: "(pykey \<times> json) list \<Rightarrow> bool" where
  "str_keys d = list_all (\<lambda>p. case fst p of KStr s \<Rightarrow> True | _ \<Rightarrow> False) d"

text \<open>
  The JSON encoder writes a key that is not a string as text: \<^verbatim>\<open>true\<close>, \<^verbatim>\<open>false\<close>,
  \<^verbatim>\<open>null\<close>, or the digits of the integer.
\<close>

fun key_text :: "pykey \<Rightarrow> string" where
  "key_text (KStr s) = s"
| "key_text (KInt i) = int_str i"
| "key_text (KBool b) = (if b then ''true'' else ''false'')"
| "key_text KNone = ''null''"

definition as_json_object :: "(pykey \<times> json) list \<Rightarrow> json" where
  "as_json_object d = JObj (map (\<lambda>kv. (key_text (fst kv), snd kv)) d)"

section \<open>The HTTP client\<close>

definition NOTION_VERSION :: string where
  "NOTION_VERSION = ''2022-06-28''"

definition NOTION_API_BASE :: string where
  "NOTION_API_BASE = ''https://api.notion.com/v1''"

text \<open>
  A call of \<^verbatim>\<open>self.client.get/post/patch\<close>: the method, the URL string, the headers the
  client was built with and the \<^verbatim>\<open>json=\<close> payload as the JSON document that is sent. The
  upstream service (and the network before it) answers a call with a response or makes
  the call raise.
\<close>

record request =
  req_method :: string
  req_url :: string
  req_headers :: "(string \<times> string) list"
  req_json :: "json option"

datatype reply = Response response | Raises httpx_error string

type_synonym upstream = "request \<Rightarrow> reply"

record NotionMCPServer =
  token :: string
  headers :: "(string \<times> string) list"
  timeout :: nat

text \<open>
  \<^verbatim>\<open>httpx.AsyncClient(headers=...)\<close> encodes every header name and value as ASCII when it
  is built, in the order of the dict. A character above 127 makes the encoding raise
  \<^verbatim>\<open>UnicodeEncodeError\<close>, with the codec, the string, the first and the end position of the
  run of characters that cannot be encoded, and the reason.
\<close>

datatype unicode_error = UnicodeEncodeError string string nat nat string

definition is_ascii :: "char \<Rightarrow> bool" where
  "is_ascii c = ((of_char c :: nat) < 128)"

definition encode_ascii :: "string \<Rightarrow> unicode_error + string" where
  "encode_ascii s =
     (if list_all is_ascii s then Inr s
      else
        (let start = length (takeWhile is_ascii s);
             run = takeWhile (\<lambda>c. \<not> is_ascii c) (drop start s)
         in Inl (UnicodeEncodeError ''ascii'' s start (start + length run)
                   ''ordinal not in range(128)'')))"

fun encode_headers :: "(string \<times> string) list \<Rightarrow> unicode_error + (string \<times> string) list" where
  "encode_headers [] = Inr []"
| "encode_headers (kv # kvs) =
     (case encode_ascii (fst kv) of
        Inl e \<Rightarrow> Inl e
      | Inr k \<Rightarrow>
          (case encode_ascii (snd kv) of
             Inl e \<Rightarrow> Inl e
           | Inr v \<Rightarrow>
               (case encode_headers kvs of
                  Inl e \<Rightarrow> Inl e
                | Inr rest \<Rightarrow> Inr ((k, v) # rest))))"

text \<open>
  \<^verbatim>\<open>NotionMCPServer.__init__\<close>: the token, the headers, and the client built from them; the
  exception of the client's constructor leaves \<^verbatim>\<open>__init__\<close>.
\<close>

definition NotionMCPServer_init :: "string \<Rightarrow> unicode_error + NotionMCPServer" where
  "NotionMCPServer_init tok =
     (let hs = [(''Authorization'', ''Bearer '' @ tok),
                (''Notion-Version'', NOTION_VERSION),
                (''Content-Type'', ''application/json'')]
      in case encode_headers hs of
           Inl e \<Rightarrow> Inl e
         | Inr encoded \<Rightarrow> Inr \<lparr> token = tok, headers = hs, timeout = 30 \<rparr>)"

text \<open>
  \<^verbatim>\<open>response.raise_for_status()\<close> of \<^verbatim>\<open>httpx\<close>: a status from 200 to 299 passes, any other
  raises \<^verbatim>\<open>HTTPStatusError\<close>. The exception holds the response; its message is made of the
  status code, the reason phrase and the URL the response reports.
\<close>

definition is_success :: "response \<Rightarrow> bool" where
  "is_success r = (200 \<le> status_code r \<and> status_code r \<le> 299)"

definition has_redirect_location :: "response \<Rightarrow> bool" where
  "has_redirect_location r =
     (status_code r \<in> {301, 302, 303, 307, 308} \<and> location r \<noteq> None)"

definition error_type :: "nat \<Rightarrow> string" where
  "error_type status =
     (let status_class = status div 100 in
      if status_class = 1 then ''Informational response''
      else if status_class = 3 then ''Redirect response''
      else if status_class = 4 then ''Client error''
      else if status_class = 5 then ''Server error''
      else ''Invalid status code'')"

definition status_message :: "response \<Rightarrow> string" where
  "status_message r =
     error_type (status_code r) @ '' '' @ quoted (dec (status_code r) @ '' '' @ reason_phrase r)
     @ '' for url '' @ quoted (response_url r) @ [CHR 0x0A]
     @ (case location r of
          Some loc \<Rightarrow>
            if has_redirect_location r
            then ''Redirect location: '' @ quoted loc @ [CHR 0x0A] else []
        | None \<Rightarrow> [])
     @ ''For more information check: https://developer.mozilla.org/en-US/docs/Web/HTTP/Status/''
     @ dec (status_code r)"

definition raise_for_status :: "response \<Rightarrow> exn + response" where
  "raise_for_status r =
     (if is_success r then Inr r else Inl (HTTPStatusError (status_message r) r))"

definition response_json :: "response \<Rightarrow> exn + json" where
  "response_json r =
     (case body_json r of
        Inl (JSONDecode m) \<Rightarrow> Inl (JSONDecodeError m)
      | Inl (UnicodeDecode m) \<Rightarrow> Inl (UnicodeDecodeError m)
      | Inr v \<Rightarrow> Inr v)"

text \<open>
  One call through \<^verbatim>\<open>self.client\<close>, followed by the two lines every method ends with:
  \<^verbatim>\<open>response.raise_for_status()\<close> and \<^verbatim>\<open>return response.json()\<close>. The result is the list
  of the calls made and the value returned or the exception raised.
\<close>

definition client_call ::
  "upstream \<Rightarrow> NotionMCPServer \<Rightarrow> string \<Rightarrow> string \<Rightarrow> json option \<Rightarrow> request list \<times> (exn + json)" where
  "client_call up self meth u payload =
     (let req = \<lparr> req_method = meth, req_url = u, req_headers = headers self,
                   req_json = payload \<rparr>
      in ([req],
          case up req of
            Raises k m \<Rightarrow> Inl (TransportError k m)
          | Response r \<Rightarrow>
              (case raise_for_status r of
                 Inl e \<Rightarrow> Inl e
               | Inr r' \<Rightarrow> response_json r')))"

section \<open>The methods of \<^verbatim>\<open>NotionMCPServer\<close>\<close>

definition search ::
  "upstream \<Rightarrow> NotionMCPServer \<Rightarrow> json \<Rightarrow> json \<Rightarrow> request list \<times> (exn + json)" where
  "search up self query filter_type =
     (let payload = (if truthy query then [(''query'', query)] else []);
          payload = (if truthy filter_type
                     then AList.update ''filter''
                            (JObj [(''property'', JStr ''object''), (''value'', filter_type)])
                            payload
                     else payload)
      in client_call up self ''POST'' (NOTION_API_BASE @ ''/search'') (Some (JObj payload)))"

definition get_page ::
  "upstream \<Rightarrow> NotionMCPServer \<Rightarrow> json \<Rightarrow> request list \<times> (exn + json)" where
  "get_page up self page_id =
     client_call up self ''GET'' (NOTION_API_BASE @ ''/pages/'' @ py_str page_id) None"

definition create_page ::
  "upstream \<Rightarrow> NotionMCPServer \<Rightarrow> json \<Rightarrow> json \<Rightarrow> json \<Rightarrow> request list \<times> (exn + json)" where
  "create_page up self parent_id title properties =
     (let props = [(KStr ''title'',
                    JObj [(''title'', JArr [JObj [(''text'', JObj [(''content'', title)])]])])]
      in case (if truthy properties then dict_update props properties else Inr props) of
           Inl e \<Rightarrow> ([], Inl e)
         | Inr props' \<Rightarrow>
             client_call up self ''POST'' (NOTION_API_BASE @ ''/pages'')
               (Some (JObj [(''parent'', JObj [(''page_id'', parent_id)]),
                            (''properties'', as_json_object props')])))"

definition update_page ::
  "upstream \<Rightarrow> NotionMCPServer \<Rightarrow> json \<Rightarrow> json \<Rightarrow> request list \<times> (exn + json)" where
  "update_page up self page_id properties =
     client_call up self ''PATCH'' (NOTION_API_BASE @ ''/pages/'' @ py_str page_id)
       (Some (JObj [(''properties'', properties)]))"

definition query_database ::
  "upstream \<Rightarrow> NotionMCPServer \<Rightarrow> json \<Rightarrow> json \<Rightarrow> json \<Rightarrow> request list \<times> (exn + json)" where
  "query_database up self database_id filter_obj sorts =
     (let payload = [];
          payload = (if truthy filter_obj then AList.update ''filter'' filter_obj payload
                     else payload);
          payload = (if truthy sorts then AList.update ''sorts'' sorts payload else payload)
      in client_call up self ''POST''
           (NOTION_API_BASE @ ''/databases/'' @ py_str database_id @ ''/query'')
           (Some (JObj payload)))"

definition get_block_children ::
  "upstream \<Rightarrow> NotionMCPServer \<Rightarrow> json \<Rightarrow> request list \<times> (exn + json)" where
  "get_block_children up self block_id =
     client_call up self ''GET''
       (NOTION_API_BASE @ ''/blocks/'' @ py_str block_id @ ''/children'') None"

definition append_block_children ::
  "upstream \<Rightarrow> NotionMCPServer \<Rightarrow> json \<Rightarrow> json \<Rightarrow> request list \<times> (exn + json)" where
  "append_block_children up self block_id children =
     client_call up self ''PATCH''
       (NOTION_API_BASE @ ''/blocks/'' @ py_str block_id @ ''/children'')
       (Some (JObj [(''children'', children)]))"

section \<open>The tool catalog\<close>

record Tool =
  tool_name :: string
  description :: string
  inputSchema :: json

definition string_property :: "string \<Rightarrow> json" where
  "string_property d = JObj [(''type'', JStr ''string''), (''description'', JStr d)]"

definition object_property :: "string \<Rightarrow> json" where
  "object_property d = JObj [(''type'', JStr ''object''), (''description'', JStr d)]"

definition array_property :: "string \<Rightarrow> json" where
  "array_property d = JObj [(''type'', JStr ''array''), (''description'', JStr d)]"

definition list_tools :: "Tool list" where
  "list_tools =
    [ \<lparr> tool_name = ''search_notion'',
        description = ''Search Notion workspace for pages and databases'',
        inputSchema = JObj
          [(''type'', JStr ''object''),
           (''properties'', JObj
              [(''query'', string_property ''Search query''),
               (''filter_type'', JObj
                  [(''type'', JStr ''string''),
                   (''enum'', JArr [JStr ''page'', JStr ''database'']),
                   (''description'', JStr ''Filter by type (optional)'')])])] \<rparr>,
      \<lparr> tool_name = ''get_page'',
        description = ''Get a Notion page by ID'',
        inputSchema = JObj
          [(''type'', JStr ''object''),
           (''properties'', JObj
              [(''page_id'', string_property ''The Notion page ID'')]),
           (''required'', JArr [JStr ''page_id''])] \<rparr>,
      \<lparr> tool_name = ''create_page'',
        description = ''Create a new Notion page'',
        inputSchema = JObj
          [(''type'', JStr ''object''),
           (''properties'', JObj
              [(''parent_id'', string_property ''Parent page ID''),
               (''title'', string_property ''Page title''),
               (''properties'', object_property ''Additional page properties (optional)'')]),
           (''required'', JArr [JStr ''parent_id'', JStr ''title''])] \<rparr>,
      \<lparr> tool_name = ''update_page'',
        description = ''Update a Notion page'' @ [CHR 0x27] @ ''s properties'',
        inputSchema = JObj
          [(''type'', JStr ''object''),
           (''properties'', JObj
              [(''page_id'', string_property ''The page ID to update''),
               (''properties'', object_property ''Properties to update'')]),
           (''required'', JArr [JStr ''page_id'', JStr ''properties''])] \<rparr>,
      \<lparr> tool_name = ''query_database'',
        description = ''Query a Notion database'',
        inputSchema = JObj
          [(''type'', JStr ''object''),
           (''properties'', JObj
              [(''database_id'', string_property ''The database ID to query''),
               (''filter'', object_property ''Filter object (optional)''),
               (''sorts'', array_property ''Sort array (optional)'')]),
           (''required'', JArr [JStr ''database_id''])] \<rparr>,
      \<lparr> tool_name = ''get_block_children'',
        description = ''Get children blocks of a page or block'',
        inputSchema = JObj
          [(''type'', JStr ''object''),
           (''properties'', JObj
              [(''block_id'', string_property ''The block or page ID'')]),
           (''required'', JArr [JStr ''block_id''])] \<rparr>,
      \<lparr> tool_name = ''append_blocks'',
        description = ''Append blocks to a page or block'',
        inputSchema = JObj
          [(''type'', JStr ''object''),
           (''properties'', JObj
              [(''block_id'', string_property ''The block or page ID to append to''),
               (''blocks'', array_property ''Array of block objects to append'')]),
           (''required'', JArr [JStr ''block_id'', JStr ''blocks''])] \<rparr> ]"

text \<open>The names a schema lists under \<^verbatim>\<open>required\<close>; none when the schema has no such entry.\<close>

fun string_items :: "json list \<Rightarrow> string list" where
  "string_items [] = []"
| "string_items (JStr s # xs) = s # string_items xs"
| "string_items (x # xs) = string_items xs"

definition required :: "Tool \<Rightarrow> string list" where
  "required t =
     (case inputSchema t of
        JObj schema \<Rightarrow> (case map_of schema ''required'' of
                          Some (JArr ks) \<Rightarrow> string_items ks
                        | _ \<Rightarrow> [])
      | _ \<Rightarrow> [])"

section \<open>Declared argument types\<close>

text \<open>
  The handler takes the values of the argument mapping as they come. The client methods
  declare \<^verbatim>\<open>dict | None\<close> for \<^verbatim>\<open>properties\<close>; this predicate says that the value found under
  a key (if any) has the declared type.
\<close>

fun mapping_or_none :: "json option \<Rightarrow> bool" where
  "mapping_or_none None = True"
| "mapping_or_none (Some JNull) = True"
| "mapping_or_none (Some (JObj kvs)) = True"
| "mapping_or_none (Some v) = False"

text \<open>The entries of the mapping found under a key; none when there is no mapping.\<close>

fun mapping_items :: "json option \<Rightarrow> (string \<times> json) list" where
  "mapping_items (Some (JObj kvs)) = kvs"
| "mapping_items a = []"

section \<open>The tool-call handler\<close>

record TextContent =
  content_type :: string
  content_text :: string

text \<open>
  The body of the \<^verbatim>\<open>try\<close> block up to the value bound to \<^verbatim>\<open>result\<close>: the branch for the
  name, the arguments read left to right, then the client method. A missing key raises
  before the method is entered.
\<close>

definition dispatch ::
  "upstream \<Rightarrow> NotionMCPServer \<Rightarrow> string \<Rightarrow> (string \<times> json) list \<Rightarrow> request list \<times> (exn + json)" where
  "dispatch up notion name arguments =
     (if name = ''search_notion'' then
        search up notion (dict_get arguments ''query'' (JStr [])) (dict_get arguments ''filter_type'' JNull)
      else if name = ''get_page'' then
        (case getitem arguments ''page_id'' of
           Inl e \<Rightarrow> ([], Inl e)
         | Inr page_id \<Rightarrow> get_page up notion page_id)
      else if name = ''create_page'' then
        (case getitem arguments ''parent_id'' of
           Inl e \<Rightarrow> ([], Inl e)
         | Inr parent_id \<Rightarrow>
             (case getitem arguments ''title'' of
                Inl e \<Rightarrow> ([], Inl e)
              | Inr title \<Rightarrow>
                  create_page up notion parent_id title (dict_get arguments ''properties'' JNull)))
      else if name = ''update_page'' then
        (case getitem arguments ''page_id'' of
           Inl e \<Rightarrow> ([], Inl e)
         | Inr page_id \<Rightarrow>
             (case getitem arguments ''properties'' of
                Inl e \<Rightarrow> ([], Inl e)
              | Inr properties \<Rightarrow> update_page up notion page_id properties))
      else if name = ''query_database'' then
        (case getitem arguments ''database_id'' of
           Inl e \<Rightarrow> ([], Inl e)
         | Inr database_id \<Rightarrow>
             query_database up notion database_id
               (dict_get arguments ''filter'' JNull) (dict_get arguments ''sorts'' JNull))
      else if name = ''get_block_children'' then
        (case getitem arguments ''block_id'' of
           Inl e \<Rightarrow> ([], Inl e)
         | Inr block_id \<Rightarrow> get_block_children up notion block_id)
      else if name = ''append_blocks'' then
        (case getitem arguments ''block_id'' of
           Inl e \<Rightarrow> ([], Inl e)
         | Inr block_id \<Rightarrow>
             (case getitem arguments ''blocks'' of
                Inl e \<Rightarrow> ([], Inl e)
              | Inr blocks \<Rightarrow> append_block_children up notion block_id blocks))
      else ([], Inl (ValueError (''Unknown tool: '' @ name))))"

definition text_content :: "string \<Rightarrow> TextContent" where
  "text_content s = \<lparr> content_type = ''text'', content_text = s \<rparr>"

definition error_object :: "exn \<Rightarrow> json" where
  "error_object e = JObj [(''error'', JStr (exn_str e)), (''type'', JStr (exn_name e))]"

text \<open>
  \<^verbatim>\<open>call_tool\<close>: the calls made through the client, and the list handed back to the
  transport. \<^verbatim>\<open>except Exception\<close> takes every exception of the \<^verbatim>\<open>try\<close> block.
\<close>

definition call_tool ::
  "upstream \<Rightarrow> NotionMCPServer \<Rightarrow> string \<Rightarrow> (string \<times> json) list \<Rightarrow> request list \<times> TextContent list" where
  "call_tool up notion name arguments =
     (case dispatch up notion name arguments of
        (calls, Inr result) \<Rightarrow> (calls, [text_content (dumps 2 result)])
      | (calls, Inl e) \<Rightarrow> (calls, [text_content (dumps 2 (error_object e))]))"

section \<open>Startup\<close>

text \<open>
  \<^verbatim>\<open>main\<close> up to the point where the server runs: the process has exited with a status
  and a line on the error stream, or an exception has left \<^verbatim>\<open>main\<close> (the interpreter then
  prints the traceback on the error stream and exits with status 1), or it serves with a
  client and the registered catalog.
\<close>

record Server =
  server_name :: string
  notion_client :: NotionMCPServer
  catalog :: "Tool list"

datatype process = Exited int string | Unhandled unicode_error | Serving Server

definition main :: "(string \<Rightarrow> string option) \<Rightarrow> process" where
  "main environ =
     (case environ ''NOTION_TOKEN'' of
        None \<Rightarrow> Exited 1 (''Error: NOTION_TOKEN environment variable not set'' @ [CHR 0x0A])
      | Some tok \<Rightarrow>
          if tok = [] then
            Exited 1 (''Error: NOTION_TOKEN environment variable not set'' @ [CHR 0x0A])
          else
            (case NotionMCPServer_init tok of
               Inl e \<Rightarrow> Unhandled e
             | Inr notion \<Rightarrow>
                 Serving \<lparr> server_name = ''notion-direct'', notion_client = notion,
                           catalog = list_tools \<rparr>))"

text \<open>The catalog a client of the transport can ask for: none once the process has ended.\<close>

fun published :: "process \<Rightarrow> Tool list option" where
  "published (Exited status err) = None"
| "published (Unhandled e) = None"
| "published (Serving srv) = Some (catalog srv)"

section \<open>\<^verbatim>\<open>json.loads\<close>\<close>

text \<open>
  The decoder of the standard library, for the documents of the embedding: a number token
  with a fraction or an exponent, the constants \<^verbatim>\<open>NaN\<close> and \<^verbatim>\<open>Infinity\<close>, and a \<^verbatim>\<open>\uXXXX\<close>
  escape above 255 denote values outside the embedding, and the decoder gives \<open>None\<close> for
  them as it does for a malformed text.
\<close>

definition is_ws :: "char \<Rightarrow> bool" where
  "is_ws c = (c = CHR '' '' \<or> c = CHR 0x09 \<or> c = CHR 0x0A \<or> c = CHR 0x0D)"

definition skip_ws :: "string \<Rightarrow> string" where
  "skip_ws s = dropWhile is_ws s"




definition hex_val :: "char \<Rightarrow> nat option" where
  "hex_val c = (let n = (of_char c :: nat) in
     if 48 \<le> n \<and> n \<le> 57 then Some (n - 48)
     else if 97 \<le> n \<and> n \<le> 102 then Some (n - 87)
     else if 65 \<le> n \<and> n \<le> 70 then Some (n - 55)
     else None)"

text \<open>The character a one-letter escape stands for.\<close>

definition backslash :: "char \<Rightarrow> char option" where
  "backslash e =
     (if e = CHR 0x22 then Some (CHR 0x22)
      else if e = CHR 0x5C then Some (CHR 0x5C)
      else if e = CHR ''/'' then Some (CHR ''/'')
      else if e = CHR ''b'' then Some (CHR 0x08)
      else if e = CHR ''f'' then Some (CHR 0x0C)
      else if e = CHR ''n'' then Some (CHR 0x0A)
      else if e = CHR ''r'' then Some (CHR 0x0D)
      else if e = CHR ''t'' then Some (CHR 0x09)
      else None)"

definition decode_uXXXX :: "char \<Rightarrow> char \<Rightarrow> char \<Rightarrow> char \<Rightarrow> char option" where
  "decode_uXXXX h1 h2 h3 h4 =
     (case (hex_val h1, hex_val h2, hex_val h3, hex_val h4) of
        (Some a, Some b, Some c, Some d) \<Rightarrow>
          (let n = ((a * 16 + b) * 16 + c) * 16 + d in
           if n < 256 then Some (char_of n) else None)
      | _ \<Rightarrow> None)"

definition cons_result :: "char \<Rightarrow> (string \<times> string) option \<Rightarrow> (string \<times> string) option" where
  "cons_result c res = (case res of None \<Rightarrow> None | Some (s, rest) \<Rightarrow> Some (c # s, rest))"

text \<open>
  \<^verbatim>\<open>scanstring\<close> in strict mode, from the character after the opening quote: the decoded
  string and the text after the closing quote. A control character inside a string is an
  error.
\<close>

fun scanstring :: "string \<Rightarrow> (string \<times> string) option" where
  "scanstring [] = None"
| "scanstring (c # cs) =
     (if c = CHR 0x22 then Some ([], cs)
      else if c = CHR 0x5C then
        (case cs of
           [] \<Rightarrow> None
         | e # es \<Rightarrow>
             if e = CHR ''u'' then
               (case es of
                  h1 # h2 # h3 # h4 # rest \<Rightarrow>
                    (case decode_uXXXX h1 h2 h3 h4 of
                       None \<Rightarrow> None
                     | Some ch \<Rightarrow> cons_result ch (scanstring rest))
                | _ \<Rightarrow> None)
             else
               (case backslash e of
                  None \<Rightarrow> None
                | Some ch \<Rightarrow> cons_result ch (scanstring es)))
      else if (of_char c :: nat) < 32 then None
      else cons_result c (scanstring cs))"










section \<open>Sample inputs\<close>

text \<open>
  A client and upstreams for the concrete instances below: \<open>answers\<close> gives every request
  one response that reports the URL \<open>u\<close>, \<open>fails\<close> makes every request raise.
\<close>

definition sample_notion :: NotionMCPServer where
  "sample_notion =
     \<lparr> token = ''secret'',
       headers = [(''Authorization'', ''Bearer secret''),
                  (''Notion-Version'', NOTION_VERSION),
                  (''Content-Type'', ''application/json'')],
       timeout = 30 \<rparr>"

definition answers ::
  "string \<Rightarrow> nat \<Rightarrow> string \<Rightarrow> string \<Rightarrow> decode_error + json \<Rightarrow> upstream" where
  "answers u status reason txt decoded =
     (\<lambda>req. Response \<lparr> status_code = status, reason_phrase = reason, response_url = u,
                        location = None, body_text = txt, body_json = decoded \<rparr>)"

definition fails :: "httpx_error \<Rightarrow> string \<Rightarrow> upstream" where
  "fails k m = (\<lambda>req. Raises k m)"



section \<open>Calls made by the handler\<close>

lemma fst_call_tool:
  "fst (call_tool up notion name arguments) = fst (dispatch up notion name arguments)"
  by (simp add: call_tool_def split: prod.splits sum.splits)

lemma fst_client_call:
  "fst (client_call up self meth u payload) =
     [\<lparr> req_method = meth, req_url = u, req_headers = headers self, req_json = payload \<rparr>]"
  by (simp add: client_call_def Let_def)

section \<open>The catalog\<close>

text \<open>
  C7. The list returned by \<open>list_tools\<close> is a constant of the program: it names the seven
  operations in the order of their declaration, no name twice, and for each of the names
  exactly one descriptor of the list carries it.
\<close>

theorem list_tools_fixed:
  "map tool_name list_tools =
     [''search_notion'', ''get_page'', ''create_page'', ''update_page'', ''query_database'',
      ''get_block_children'', ''append_blocks'']
   \<and> distinct (map tool_name list_tools)
   \<and> map (\<lambda>n. length (filter (\<lambda>t. tool_name t = n) list_tools)) (map tool_name list_tools)
       = replicate 7 1"
  by (simp add: list_tools_def numeral_eq_Suc)

section \<open>Unknown operations\<close>

text \<open>
  C5. A name that is not in the catalog reaches the last branch of the handler: no call
  goes out, and the one text item holds the error object with the message
  \<^verbatim>\<open>Unknown tool: <name>\<close> and the type \<^verbatim>\<open>ValueError\<close>.
\<close>

theorem unknown_tool:
  assumes "name \<notin> set (map tool_name list_tools)"
  shows "call_tool up notion name arguments =
           ([], [text_content (dumps 2
                   (JObj [(''error'', JStr (''Unknown tool: '' @ name)),
                          (''type'', JStr ''ValueError'')]))])"
  using assms by (simp add: list_tools_def call_tool_def dispatch_def error_object_def)

theorem unknown_tool_witness:
  "''not_a_real_tool'' \<notin> set (map tool_name list_tools)
   \<and> call_tool (fails ConnectError ''refused'') sample_notion ''not_a_real_tool'' [] =
           ([], [text_content (dumps 2
                   (JObj [(''error'', JStr ''Unknown tool: not_a_real_tool''),
                          (''type'', JStr ''ValueError'')]))])"
proof -
  have h: "''not_a_real_tool'' \<notin> set (map tool_name list_tools)"
    by (simp add: list_tools_def)
  show ?thesis
    using h unknown_tool [OF h, of "fails ConnectError ''refused''" sample_notion "[]"]
    by simp
qed

section \<open>Search\<close>

text \<open>
  C2. The search operation called with an empty argument mapping posts an empty object to
  the search endpoint, so the body has neither a \<^verbatim>\<open>query\<close> nor a \<^verbatim>\<open>filter\<close> key; called
  with the query \<^verbatim>\<open>x\<close> and the filter type \<^verbatim>\<open>page\<close> it posts the query and the filter
  clause on the \<^verbatim>\<open>object\<close> property.
\<close>

theorem search_request_bodies:
  "fst (call_tool up notion ''search_notion'' []) =
     [\<lparr> req_method = ''POST'', req_url = ''https://api.notion.com/v1/search'',
        req_headers = headers notion, req_json = Some (JObj []) \<rparr>]
   \<and> fst (call_tool up notion ''search_notion''
            [(''query'', JStr ''x''), (''filter_type'', JStr ''page'')]) =
     [\<lparr> req_method = ''POST'', req_url = ''https://api.notion.com/v1/search'',
        req_headers = headers notion,
        req_json = Some (JObj [(''query'', JStr ''x''),
                               (''filter'', JObj [(''property'', JStr ''object''),
                                                  (''value'', JStr ''page'')])]) \<rparr>]"
  by (simp add: fst_call_tool dispatch_def search_def fst_client_call dict_get_def
        NOTION_API_BASE_def)

section \<open>Missing arguments\<close>

lemma repr_char_plain:
  "printable c \<Longrightarrow> c \<noteq> CHR 0x27 \<Longrightarrow> c \<noteq> CHR 0x5C \<Longrightarrow> repr_char (CHR 0x27) c = [c]"
  unfolding repr_char_def printable_def Let_def
  by (auto simp del: of_char_eq_iff)

lemma concat_repr_char_plain:
  "\<forall>c\<in>set s. printable c \<and> c \<noteq> CHR 0x27 \<and> c \<noteq> CHR 0x5C \<Longrightarrow>
   concat (map (repr_char (CHR 0x27)) s) = s"
  by (induction s) (simp_all add: repr_char_plain)

lemma str_repr_plain:
  assumes "\<forall>c\<in>set s. printable c \<and> c \<noteq> CHR 0x27 \<and> c \<noteq> CHR 0x5C"
  shows "str_repr s = quoted s"
proof -
  have "CHR 0x27 \<notin> set s" using assms by auto
  then have "repr_quote s = CHR 0x27" by (simp add: repr_quote_def)
  then show ?thesis
    using concat_repr_char_plain [OF assms] by (simp add: str_repr_def quoted_def Let_def)
qed

lemma str_repr_page_id: "str_repr ''page_id'' = quoted ''page_id''"
  by (rule str_repr_plain) (simp add: printable_def)

lemma str_repr_parent_id: "str_repr ''parent_id'' = quoted ''parent_id''"
  by (rule str_repr_plain) (simp add: printable_def)

lemma str_repr_title: "str_repr ''title'' = quoted ''title''"
  by (rule str_repr_plain) (simp add: printable_def)

lemma str_repr_properties: "str_repr ''properties'' = quoted ''properties''"
  by (rule str_repr_plain) (simp add: printable_def)

lemma str_repr_database_id: "str_repr ''database_id'' = quoted ''database_id''"
  by (rule str_repr_plain) (simp add: printable_def)

lemma str_repr_block_id: "str_repr ''block_id'' = quoted ''block_id''"
  by (rule str_repr_plain) (simp add: printable_def)

lemma str_repr_blocks: "str_repr ''blocks'' = quoted ''blocks''"
  by (rule str_repr_plain) (simp add: printable_def)

lemmas str_repr_keys = str_repr_page_id str_repr_parent_id str_repr_title str_repr_properties
  str_repr_database_id str_repr_block_id str_repr_blocks

lemma tools_table:
  "map (\<lambda>t. (tool_name t, required t)) list_tools =
     [(''search_notion'', []), (''get_page'', [''page_id'']),
      (''create_page'', [''parent_id'', ''title'']),
      (''update_page'', [''page_id'', ''properties'']),
      (''query_database'', [''database_id'']),
      (''get_block_children'', [''block_id'']),
      (''append_blocks'', [''block_id'', ''blocks''])]"
  by (simp add: list_tools_def required_def)

lemma call_tool_KeyError:
  "dispatch up notion name arguments = ([], Inl (KeyError k)) \<Longrightarrow> str_repr k = quoted k \<Longrightarrow>
   call_tool up notion name arguments =
     ([], [text_content (dumps 2
             (JObj [(''error'', JStr (quoted k)), (''type'', JStr ''KeyError'')]))])"
  by (simp add: call_tool_def error_object_def)

lemma getitem_None: "map_of d k = None \<Longrightarrow> getitem d k = Inl (KeyError k)"
  by (simp add: getitem_def)

lemma getitem_Some: "map_of d k = Some v \<Longrightarrow> getitem d k = Inr v"
  by (simp add: getitem_def)

lemma missing_get_page:
  "map_of arguments ''page_id'' = None \<Longrightarrow>
   dispatch up notion ''get_page'' arguments = ([], Inl (KeyError ''page_id''))"
  by (simp add: dispatch_def getitem_None)

lemma missing_create_page_1:
  "map_of arguments ''parent_id'' = None \<Longrightarrow>
   dispatch up notion ''create_page'' arguments = ([], Inl (KeyError ''parent_id''))"
  by (simp add: dispatch_def getitem_None)

lemma missing_create_page_2:
  "map_of arguments ''parent_id'' = Some v \<Longrightarrow> map_of arguments ''title'' = None \<Longrightarrow>
   dispatch up notion ''create_page'' arguments = ([], Inl (KeyError ''title''))"
  by (simp add: dispatch_def getitem_None getitem_Some)

lemma missing_update_page_1:
  "map_of arguments ''page_id'' = None \<Longrightarrow>
   dispatch up notion ''update_page'' arguments = ([], Inl (KeyError ''page_id''))"
  by (simp add: dispatch_def getitem_None)

lemma missing_update_page_2:
  "map_of arguments ''page_id'' = Some v \<Longrightarrow> map_of arguments ''properties'' = None \<Longrightarrow>
   dispatch up notion ''update_page'' arguments = ([], Inl (KeyError ''properties''))"
  by (simp add: dispatch_def getitem_None getitem_Some)

lemma missing_query_database:
  "map_of arguments ''database_id'' = None \<Longrightarrow>
   dispatch up notion ''query_database'' arguments = ([], Inl (KeyError ''database_id''))"
  by (simp add: dispatch_def getitem_None)

lemma missing_get_block_children:
  "map_of arguments ''block_id'' = None \<Longrightarrow>
   dispatch up notion ''get_block_children'' arguments = ([], Inl (KeyError ''block_id''))"
  by (simp add: dispatch_def getitem_None)

lemma missing_append_blocks_1:
  "map_of arguments ''block_id'' = None \<Longrightarrow>
   dispatch up notion ''append_blocks'' arguments = ([], Inl (KeyError ''block_id''))"
  by (simp add: dispatch_def getitem_None)

lemma missing_append_blocks_2:
  "map_of arguments ''block_id'' = Some v \<Longrightarrow> map_of arguments ''blocks'' = None \<Longrightarrow>
   dispatch up notion ''append_blocks'' arguments = ([], Inl (KeyError ''blocks''))"
  by (simp add: dispatch_def getitem_None getitem_Some)

text \<open>
  C4. When the schema of a catalog entry lists a key under \<^verbatim>\<open>required\<close> and the argument
  mapping lacks it, the invocation of that entry makes no call, and its one text item is
  the error object of a \<^verbatim>\<open>KeyError\<close> whose message is a missing required key in single
  quotes.
\<close>

theorem missing_required_argument:
  assumes "t \<in> set list_tools" and "k \<in> set (required t)" and "map_of arguments k = None"
  shows "\<exists>k'\<in>set (required t). map_of arguments k' = None \<and>
           call_tool up notion (tool_name t) arguments =
             ([], [text_content (dumps 2
                     (JObj [(''error'', JStr (quoted k')), (''type'', JStr ''KeyError'')]))])"
proof -
  have "(tool_name t, required t) \<in> set (map (\<lambda>t. (tool_name t, required t)) list_tools)"
    using assms(1) by (rule imageI [of t "set list_tools" "\<lambda>t. (tool_name t, required t)", simplified set_map [symmetric]])
  then consider
      "tool_name t = ''search_notion''" "required t = []"
    | "tool_name t = ''get_page''" "required t = [''page_id'']"
    | "tool_name t = ''create_page''" "required t = [''parent_id'', ''title'']"
    | "tool_name t = ''update_page''" "required t = [''page_id'', ''properties'']"
    | "tool_name t = ''query_database''" "required t = [''database_id'']"
    | "tool_name t = ''get_block_children''" "required t = [''block_id'']"
    | "tool_name t = ''append_blocks''" "required t = [''block_id'', ''blocks'']"
    unfolding tools_table by auto
  then show ?thesis
  proof cases
    case 1
    with assms(2) show ?thesis by simp
  next
    case 2
    with assms(2,3) have "map_of arguments ''page_id'' = None" by simp
    then show ?thesis
      using call_tool_KeyError [OF missing_get_page str_repr_page_id, of arguments up notion] 2
      by simp
  next
    case 3
    show ?thesis
    proof (cases "map_of arguments ''parent_id''")
      case None
      then show ?thesis
        using call_tool_KeyError [OF missing_create_page_1 str_repr_parent_id, of arguments up notion] 3
        by simp
    next
      case (Some v)
      with assms(2,3) 3 have "map_of arguments ''title'' = None" by auto
      then show ?thesis
        using call_tool_KeyError [OF missing_create_page_2 str_repr_title, of arguments v up notion] 3 Some
        by simp
    qed
  next
    case 4
    show ?thesis
    proof (cases "map_of arguments ''page_id''")
      case None
      then show ?thesis
        using call_tool_KeyError [OF missing_update_page_1 str_repr_page_id, of arguments up notion] 4
        by simp
    next
      case (Some v)
      with assms(2,3) 4 have "map_of arguments ''properties'' = None" by auto
      then show ?thesis
        using call_tool_KeyError [OF missing_update_page_2 str_repr_properties, of arguments v up notion] 4 Some
        by simp
    qed
  next
    case 5
    with assms(2,3) have "map_of arguments ''database_id'' = None" by simp
    then show ?thesis
      using call_tool_KeyError [OF missing_query_database str_repr_database_id, of arguments up notion] 5
      by simp
  next
    case 6
    with assms(2,3) have "map_of arguments ''block_id'' = None" by simp
    then show ?thesis
      using call_tool_KeyError [OF missing_get_block_children str_repr_block_id, of arguments up notion] 6
      by simp
  next
    case 7
    show ?thesis
    proof (cases "map_of arguments ''block_id''")
      case None
      then show ?thesis
        using call_tool_KeyError [OF missing_append_blocks_1 str_repr_block_id, of arguments up notion] 7
        by simp
    next
      case (Some v)
      with assms(2,3) 7 have "map_of arguments ''blocks'' = None" by auto
      then show ?thesis
        using call_tool_KeyError [OF missing_append_blocks_2 str_repr_blocks, of arguments v up notion] 7 Some
        by simp
    qed
  qed
qed

theorem missing_required_argument_witness:
  "list_tools ! 1 \<in> set list_tools
   \<and> ''page_id'' \<in> set (required (list_tools ! 1))
   \<and> map_of ([] :: (string \<times> json) list) ''page_id'' = None
   \<and> call_tool (answers ''https://api.notion.com/v1/pages/p1'' 200 ''OK'' ''{}''
                   (Inr (JObj []))) sample_notion ''get_page'' [] =
         ([], [text_content (dumps 2
                 (JObj [(''error'', JStr (quoted ''page_id'')), (''type'', JStr ''KeyError'')]))])"
proof -
  have l: "length list_tools = 7" by (simp add: list_tools_def)
  have "map (\<lambda>t. (tool_name t, required t)) list_tools ! 1 = (''get_page'', [''page_id''])"
    by (simp only: tools_table) simp
  then have nr: "tool_name (list_tools ! 1) = ''get_page''" "required (list_tools ! 1) = [''page_id'']"
    using l by simp_all
  have h1: "list_tools ! 1 \<in> set list_tools" using l by simp
  have h2: "''page_id'' \<in> set (required (list_tools ! 1))" by (simp only: nr) simp
  have h3: "map_of ([] :: (string \<times> json) list) ''page_id'' = None" by simp
  obtain k' where k: "k' \<in> set (required (list_tools ! 1))"
    and c: "call_tool (answers ''https://api.notion.com/v1/pages/p1'' 200 ''OK'' ''{}''
                        (Inr (JObj []))) sample_notion
              (tool_name (list_tools ! 1)) [] =
            ([], [text_content (dumps 2
                 (JObj [(''error'', JStr (quoted k')), (''type'', JStr ''KeyError'')]))])"
    using missing_required_argument [OF h1 h2 h3,
        of "answers ''https://api.notion.com/v1/pages/p1'' 200 ''OK'' ''{}''
              (Inr (JObj []))" sample_notion] by blast
  from k have "k' = ''page_id''" by (simp only: nr) simp
  with c have "call_tool (answers ''https://api.notion.com/v1/pages/p1'' 200 ''OK'' ''{}''
                            (Inr (JObj []))) sample_notion ''get_page'' [] =
         ([], [text_content (dumps 2
                 (JObj [(''error'', JStr (quoted ''page_id'')), (''type'', JStr ''KeyError'')]))])"
    by (simp only: nr)
  with h1 h2 h3 show ?thesis by blast
qed

section \<open>Database queries\<close>

lemma fst_dispatch_query_database:
  assumes "map_of arguments ''database_id'' = Some db"
  shows "fst (dispatch up notion ''query_database'' arguments) =
     [\<lparr> req_method = ''POST'',
        req_url = NOTION_API_BASE @ ''/databases/'' @ py_str db @ ''/query'',
        req_headers = headers notion,
        req_json = Some (JObj
          ((if truthy (dict_get arguments ''filter'' JNull)
            then [(''filter'', dict_get arguments ''filter'' JNull)] else [])
           @ (if truthy (dict_get arguments ''sorts'' JNull)
              then [(''sorts'', dict_get arguments ''sorts'' JNull)] else []))) \<rparr>]"
  using assms
  by (simp add: dispatch_def getitem_def query_database_def fst_client_call Let_def)

lemma query_database_cong:
  assumes "truthy f = truthy f'" and "truthy f \<Longrightarrow> f = f'"
    and "truthy s = truthy s'" and "truthy s \<Longrightarrow> s = s'"
  shows "query_database up notion db f s = query_database up notion db f' s'"
proof (cases "truthy f")
  case True
  then show ?thesis using assms by (cases "truthy s") (simp_all add: query_database_def)
next
  case False
  then show ?thesis using assms by (cases "truthy s") (simp_all add: query_database_def)
qed

lemma dispatch_query_database_cong:
  assumes "map_of a ''database_id'' = map_of b ''database_id''"
    and "truthy (dict_get a ''filter'' JNull) = truthy (dict_get b ''filter'' JNull)"
    and "truthy (dict_get a ''filter'' JNull) \<Longrightarrow> dict_get a ''filter'' JNull = dict_get b ''filter'' JNull"
    and "truthy (dict_get a ''sorts'' JNull) = truthy (dict_get b ''sorts'' JNull)"
    and "truthy (dict_get a ''sorts'' JNull) \<Longrightarrow> dict_get a ''sorts'' JNull = dict_get b ''sorts'' JNull"
  shows "dispatch up notion ''query_database'' a = dispatch up notion ''query_database'' b"
proof -
  have "query_database up notion db (dict_get a ''filter'' JNull) (dict_get a ''sorts'' JNull)
      = query_database up notion db (dict_get b ''filter'' JNull) (dict_get b ''sorts'' JNull)"
    for db
    using assms(2-5) by (rule query_database_cong)
  then show ?thesis
    using assms(1) by (simp add: dispatch_def getitem_def split: option.splits)
qed

text \<open>
  C10, as the code has it. In a \<^verbatim>\<open>query_database\<close> invocation with a \<^verbatim>\<open>database_id\<close>, one
  request is made; its body has no key other than \<^verbatim>\<open>filter\<close> and \<^verbatim>\<open>sorts\<close>; it has
  \<^verbatim>\<open>filter\<close> exactly when a filter is supplied and is truthy, and \<^verbatim>\<open>sorts\<close> exactly when
  sorts are supplied and truthy, each with the supplied value, whatever its type. A
  supplied value that is not truthy (an empty mapping, an empty list, and also \<^verbatim>\<open>None\<close>,
  \<^verbatim>\<open>False\<close>, 0 and the empty string) gives the same calls and the same result as the
  invocation without that argument.
\<close>

theorem query_database_body:
  assumes "map_of arguments ''database_id'' = Some db"
  shows "\<exists>req body.
      fst (call_tool up notion ''query_database'' arguments) = [req]
    \<and> req_json req = Some (JObj body)
    \<and> fst ` set body \<subseteq> {''filter'', ''sorts''}
    \<and> (\<forall>v. map_of body ''filter'' = Some v \<longleftrightarrow>
            map_of arguments ''filter'' = Some v \<and> truthy v)
    \<and> (\<forall>v. map_of body ''sorts'' = Some v \<longleftrightarrow>
            map_of arguments ''sorts'' = Some v \<and> truthy v)
    \<and> (\<forall>v. map_of arguments ''filter'' = Some v \<and> \<not> truthy v \<longrightarrow>
          call_tool up notion ''query_database'' arguments =
          call_tool up notion ''query_database'' (AList.delete ''filter'' arguments))
    \<and> (\<forall>v. map_of arguments ''sorts'' = Some v \<and> \<not> truthy v \<longrightarrow>
          call_tool up notion ''query_database'' arguments =
          call_tool up notion ''query_database'' (AList.delete ''sorts'' arguments))"
proof -
  let ?f = "dict_get arguments ''filter'' JNull"
  let ?s = "dict_get arguments ''sorts'' JNull"
  let ?body = "(if truthy ?f then [(''filter'', ?f)] else [])
               @ (if truthy ?s then [(''sorts'', ?s)] else [])"
  have 1: "fst ` set ?body \<subseteq> {''filter'', ''sorts''}" by auto
  have 2: "\<forall>v. map_of ?body ''filter'' = Some v \<longleftrightarrow>
            map_of arguments ''filter'' = Some v \<and> truthy v"
    by (cases "map_of arguments ''filter''") (auto simp: dict_get_def)
  have 3: "\<forall>v. map_of ?body ''sorts'' = Some v \<longleftrightarrow>
            map_of arguments ''sorts'' = Some v \<and> truthy v"
    by (cases "map_of arguments ''sorts''") (auto simp: dict_get_def)
  have 4: "\<forall>v. map_of arguments ''filter'' = Some v \<and> \<not> truthy v \<longrightarrow>
           call_tool up notion ''query_database'' arguments =
           call_tool up notion ''query_database'' (AList.delete ''filter'' arguments)"
  proof (intro allI impI)
    fix v
    assume "map_of arguments ''filter'' = Some v \<and> \<not> truthy v"
    then have "dispatch up notion ''query_database'' arguments =
           dispatch up notion ''query_database'' (AList.delete ''filter'' arguments)"
      by (intro dispatch_query_database_cong) (simp_all add: dict_get_def delete_conv')
    then show "call_tool up notion ''query_database'' arguments =
           call_tool up notion ''query_database'' (AList.delete ''filter'' arguments)"
      by (simp add: call_tool_def)
  qed
  have 5: "\<forall>v. map_of arguments ''sorts'' = Some v \<and> \<not> truthy v \<longrightarrow>
           call_tool up notion ''query_database'' arguments =
           call_tool up notion ''query_database'' (AList.delete ''sorts'' arguments)"
  proof (intro allI impI)
    fix v
    assume "map_of arguments ''sorts'' = Some v \<and> \<not> truthy v"
    then have "dispatch up notion ''query_database'' arguments =
           dispatch up notion ''query_database'' (AList.delete ''sorts'' arguments)"
      by (intro dispatch_query_database_cong) (simp_all add: dict_get_def delete_conv')
    then show "call_tool up notion ''query_database'' arguments =
           call_tool up notion ''query_database'' (AList.delete ''sorts'' arguments)"
      by (simp add: call_tool_def)
  qed
  let ?req = "\<lparr> req_method = ''POST'',
        req_url = NOTION_API_BASE @ ''/databases/'' @ py_str db @ ''/query'',
        req_headers = headers notion, req_json = Some (JObj ?body) \<rparr>"
  have A: "fst (call_tool up notion ''query_database'' arguments) = [?req]"
    by (simp only: fst_call_tool fst_dispatch_query_database [OF assms(1)])
  have B: "req_json ?req = Some (JObj ?body)" by simp
  from A B 1 2 3 4 5 show ?thesis by blast
qed

theorem query_database_body_witness:
  "map_of [(''database_id'', JStr ''d1''), (''filter'', JObj []),
           (''sorts'', JArr [JObj [(''property'', JStr ''Name'')]])] ''database_id''
     = Some (JStr ''d1'')
   \<and> map (\<lambda>req. req_json req)
         (fst (call_tool (fails ReadTimeout ''timed out'') sample_notion ''query_database''
            [(''database_id'', JStr ''d1''), (''filter'', JObj []),
             (''sorts'', JArr [JObj [(''property'', JStr ''Name'')]])]))
       = [Some (JObj [(''sorts'', JArr [JObj [(''property'', JStr ''Name'')]])])]
   \<and> call_tool (fails ReadTimeout ''timed out'') sample_notion ''query_database''
        [(''database_id'', JStr ''d1''), (''filter'', JObj []),
         (''sorts'', JArr [JObj [(''property'', JStr ''Name'')]])]
     = call_tool (fails ReadTimeout ''timed out'') sample_notion ''query_database''
        [(''database_id'', JStr ''d1''),
         (''sorts'', JArr [JObj [(''property'', JStr ''Name'')]])]"
proof -
  let ?a = "[(''database_id'', JStr ''d1''), (''filter'', JObj []),
             (''sorts'', JArr [JObj [(''property'', JStr ''Name'')]])]"
  let ?up = "fails ReadTimeout ''timed out''"
  have d: "map_of ?a ''database_id'' = Some (JStr ''d1'')" by simp
  have f: "map_of ?a ''filter'' = Some (JObj []) \<and> \<not> truthy (JObj [])" by simp
  have s: "map_of ?a ''sorts'' = Some (JArr [JObj [(''property'', JStr ''Name'')]])
           \<and> truthy (JArr [JObj [(''property'', JStr ''Name'')]])" by simp
  from query_database_body [OF d, of ?up sample_notion] obtain req body where
    r: "fst (call_tool ?up sample_notion ''query_database'' ?a) = [req]"
    and b: "req_json req = Some (JObj body)"
    and k: "fst ` set body \<subseteq> {''filter'', ''sorts''}"
    and bf: "\<forall>v. map_of body ''filter'' = Some v \<longleftrightarrow> map_of ?a ''filter'' = Some v \<and> truthy v"
    and bs: "\<forall>v. map_of body ''sorts'' = Some v \<longleftrightarrow> map_of ?a ''sorts'' = Some v \<and> truthy v"
    and df: "\<forall>v. map_of ?a ''filter'' = Some v \<and> \<not> truthy v \<longrightarrow>
          call_tool ?up sample_notion ''query_database'' ?a =
          call_tool ?up sample_notion ''query_database'' (AList.delete ''filter'' ?a)"
    by blast
  from df f have e: "call_tool ?up sample_notion ''query_database'' ?a =
          call_tool ?up sample_notion ''query_database'' (AList.delete ''filter'' ?a)"
    by blast
  have q: "map (\<lambda>req. req_json req) (fst (call_tool ?up sample_notion ''query_database'' ?a))
       = [Some (JObj [(''sorts'', JArr [JObj [(''property'', JStr ''Name'')]])])]"
    by (simp add: fst_call_tool fst_dispatch_query_database dict_get_def)
  from d q e show ?thesis by (simp add: AList.delete_eq)
qed

text \<open>
  The invocation supplies the string \<^verbatim>\<open>f\<close> as filter and \<^verbatim>\<open>True\<close> as sorts: neither is a
  mapping or a sequence, and the request body has both keys.
\<close>

theorem query_database_keeps_truthy_values:
  "map req_json
     (fst (call_tool (fails ReadTimeout ''timed out'') sample_notion ''query_database''
             [(''database_id'', JStr ''d1''), (''filter'', JStr ''f''), (''sorts'', JBool True)]))
   = [Some (JObj [(''filter'', JStr ''f''), (''sorts'', JBool True)])]"
  by (simp add: fst_call_tool fst_dispatch_query_database dict_get_def)

section \<open>Startup and headers\<close>

lemma client_call_headers:
  "\<forall>req\<in>set (fst (client_call up self meth u payload)). req_headers req = headers self"
  by (simp add: fst_client_call)

lemma search_headers:
  "\<forall>req\<in>set (fst (search up self query filter_type)). req_headers req = headers self"
  by (simp add: search_def Let_def fst_client_call)

lemma get_page_headers:
  "\<forall>req\<in>set (fst (get_page up self page_id)). req_headers req = headers self"
  by (simp add: get_page_def fst_client_call)

lemma create_page_headers:
  "\<forall>req\<in>set (fst (create_page up self parent_id title properties)). req_headers req = headers self"
  by (simp add: create_page_def Let_def fst_client_call split: sum.splits)

lemma update_page_headers:
  "\<forall>req\<in>set (fst (update_page up self page_id properties)). req_headers req = headers self"
  by (simp add: update_page_def fst_client_call)

lemma query_database_headers:
  "\<forall>req\<in>set (fst (query_database up self database_id filter_obj sorts)). req_headers req = headers self"
  by (simp add: query_database_def Let_def fst_client_call)

lemma get_block_children_headers:
  "\<forall>req\<in>set (fst (get_block_children up self block_id)). req_headers req = headers self"
  by (simp add: get_block_children_def fst_client_call)

lemma append_block_children_headers:
  "\<forall>req\<in>set (fst (append_block_children up self block_id children)). req_headers req = headers self"
  by (simp add: append_block_children_def fst_client_call)

lemma dispatch_headers:
  "\<forall>req\<in>set (fst (dispatch up notion name arguments)). req_headers req = headers notion"
  unfolding dispatch_def
  by (simp add: search_headers get_page_headers create_page_headers update_page_headers
        query_database_headers get_block_children_headers append_block_children_headers
        split: sum.splits)

lemma encode_ascii_ok: "list_all is_ascii s \<Longrightarrow> encode_ascii s = Inr s"
  by (simp add: encode_ascii_def)

lemma encode_ascii_fails: "\<not> list_all is_ascii s \<Longrightarrow> \<exists>e. encode_ascii s = Inl e"
  by (simp add: encode_ascii_def Let_def)

lemma encode_ascii_constants:
  "encode_ascii ''Authorization'' = Inr ''Authorization''"
  "encode_ascii ''Notion-Version'' = Inr ''Notion-Version''"
  "encode_ascii NOTION_VERSION = Inr NOTION_VERSION"
  "encode_ascii ''Content-Type'' = Inr ''Content-Type''"
  "encode_ascii ''application/json'' = Inr ''application/json''"
  by (simp_all add: encode_ascii_def is_ascii_def NOTION_VERSION_def)

lemma is_ascii_bearer: "list_all is_ascii (''Bearer '' @ tok) = list_all is_ascii tok"
  by (simp add: is_ascii_def)

lemma init_ascii:
  assumes "list_all is_ascii tok"
  shows "NotionMCPServer_init tok =
     Inr \<lparr> token = tok,
           headers = [(''Authorization'', ''Bearer '' @ tok),
                      (''Notion-Version'', NOTION_VERSION),
                      (''Content-Type'', ''application/json'')],
           timeout = 30 \<rparr>"
proof -
  have "encode_ascii (''Bearer '' @ tok) = Inr (''Bearer '' @ tok)"
    using assms by (intro encode_ascii_ok) (simp only: is_ascii_bearer)
  then show ?thesis
    by (simp add: NotionMCPServer_init_def encode_ascii_constants)
qed

lemma init_not_ascii:
  assumes "\<not> list_all is_ascii tok"
  shows "\<exists>e. NotionMCPServer_init tok = Inl e"
proof -
  have "\<not> list_all is_ascii (''Bearer '' @ tok)"
    using assms is_ascii_bearer [of tok] by blast
  then obtain e where "encode_ascii (''Bearer '' @ tok) = Inl e"
    using encode_ascii_fails by blast
  then show ?thesis
    by (simp add: NotionMCPServer_init_def encode_ascii_constants)
qed

lemma init_headers:
  "NotionMCPServer_init tok = Inr notion \<Longrightarrow>
   headers notion = [(''Authorization'', ''Bearer '' @ tok),
                     (''Notion-Version'', ''2022-06-28''),
                     (''Content-Type'', ''application/json'')]"
  by (auto simp: NotionMCPServer_init_def Let_def NOTION_VERSION_def split: sum.splits)

text \<open>
  C9. Without the variable \<^verbatim>\<open>NOTION_TOKEN\<close>, or with an empty value, the process exits with
  status 1 after the diagnostic line on the error stream, and no catalog is published. With
  a non-empty value, whenever the process serves, it publishes the catalog and every request
  any invocation makes carries the \<^verbatim>\<open>Authorization\<close> header with the bearer token, the API
  version and the JSON content type. It serves when the token is all ASCII; a token with a
  character above 127 makes the constructor of the HTTP client raise, the exception leaves
  \<^verbatim>\<open>main\<close>, and no catalog is published and no request is made.
\<close>

theorem startup_credential:
  "(environ ''NOTION_TOKEN'' = None \<or> environ ''NOTION_TOKEN'' = Some [] \<longrightarrow>
      main environ = Exited 1 (''Error: NOTION_TOKEN environment variable not set'' @ [CHR 0x0A])
      \<and> published (main environ) = None)
   \<and> (\<forall>tok. environ ''NOTION_TOKEN'' = Some tok \<and> tok \<noteq> [] \<longrightarrow>
        (\<forall>srv. main environ = Serving srv \<longrightarrow>
             published (main environ) = Some list_tools
           \<and> (\<forall>up name arguments.
                 \<forall>req\<in>set (fst (call_tool up (notion_client srv) name arguments)).
                   req_headers req =
                     [(''Authorization'', ''Bearer '' @ tok),
                      (''Notion-Version'', ''2022-06-28''),
                      (''Content-Type'', ''application/json'')]))
      \<and> (list_all is_ascii tok \<longrightarrow> (\<exists>srv. main environ = Serving srv))
      \<and> (\<not> list_all is_ascii tok \<longrightarrow>
            (\<exists>e. main environ = Unhandled e) \<and> published (main environ) = None))"
proof (intro conjI impI allI)
  assume "environ ''NOTION_TOKEN'' = None \<or> environ ''NOTION_TOKEN'' = Some []"
  then show "main environ =
      Exited 1 (''Error: NOTION_TOKEN environment variable not set'' @ [CHR 0x0A])"
    by (auto simp: main_def)
  then show "published (main environ) = None" by simp
next
  fix tok srv
  assume a: "environ ''NOTION_TOKEN'' = Some tok \<and> tok \<noteq> []"
    and s: "main environ = Serving srv"
  from a s have "catalog srv = list_tools"
    by (auto simp: main_def split: sum.splits)
  with s show "published (main environ) = Some list_tools" by simp
next
  fix tok srv up name arguments
  assume a: "environ ''NOTION_TOKEN'' = Some tok \<and> tok \<noteq> []"
    and s: "main environ = Serving srv"
  from a s obtain notion where n: "NotionMCPServer_init tok = Inr notion"
    and srv: "notion_client srv = notion"
    by (auto simp: main_def split: sum.splits)
  have h: "headers (notion_client srv) =
             [(''Authorization'', ''Bearer '' @ tok), (''Notion-Version'', ''2022-06-28''),
              (''Content-Type'', ''application/json'')]"
    using init_headers [OF n] srv by simp
  show "\<forall>req\<in>set (fst (call_tool up (notion_client srv) name arguments)).
               req_headers req =
                 [(''Authorization'', ''Bearer '' @ tok), (''Notion-Version'', ''2022-06-28''),
                  (''Content-Type'', ''application/json'')]"
    using dispatch_headers [of up "notion_client srv" name arguments]
    by (simp only: fst_call_tool h)
next
  fix tok
  assume a: "environ ''NOTION_TOKEN'' = Some tok \<and> tok \<noteq> []"
    and "list_all is_ascii tok"
  then show "\<exists>srv. main environ = Serving srv"
    by (simp add: main_def init_ascii)
next
  fix tok
  assume a: "environ ''NOTION_TOKEN'' = Some tok \<and> tok \<noteq> []"
    and "\<not> list_all is_ascii tok"
  then obtain e where e: "NotionMCPServer_init tok = Inl e"
    using init_not_ascii by blast
  with a have m: "main environ = Unhandled e" by (simp add: main_def)
  then show "\<exists>e. main environ = Unhandled e" by blast
  from m show "published (main environ) = None" by simp
qed

theorem startup_credential_witness:
  "main (\<lambda>v. None) =
     Exited 1 (''Error: NOTION_TOKEN environment variable not set'' @ [CHR 0x0A])
   \<and> published (main (\<lambda>v. None)) = None
   \<and> (\<exists>srv. main (\<lambda>v. if v = ''NOTION_TOKEN'' then Some ''secret'' else None) = Serving srv
        \<and> published (main (\<lambda>v. if v = ''NOTION_TOKEN'' then Some ''secret'' else None))
            = Some list_tools
        \<and> map req_headers
             (fst (call_tool (fails ConnectError ''refused'') (notion_client srv) ''get_page''
                     [(''page_id'', JStr ''p1'')]))
            = [[(''Authorization'', ''Bearer secret''), (''Notion-Version'', ''2022-06-28''),
                (''Content-Type'', ''application/json'')]])
   \<and> (\<exists>e. main (\<lambda>v. if v = ''NOTION_TOKEN'' then Some [CHR 0xE9] else None) = Unhandled e)
   \<and> published (main (\<lambda>v. if v = ''NOTION_TOKEN'' then Some [CHR 0xE9] else None)) = None"
proof -
  let ?e = "\<lambda>v. if v = ''NOTION_TOKEN'' then Some ''secret'' else None"
  let ?x = "\<lambda>v. if v = ''NOTION_TOKEN'' then Some [CHR 0xE9] else None"
  have a: "main (\<lambda>v. None) =
             Exited 1 (''Error: NOTION_TOKEN environment variable not set'' @ [CHR 0x0A])
           \<and> published (main (\<lambda>v. None)) = None"
    using startup_credential [of "\<lambda>v. None"] by simp
  have e: "?e ''NOTION_TOKEN'' = Some ''secret'' \<and> ''secret'' \<noteq> []" by simp
  have "list_all is_ascii ''secret''" by (simp add: is_ascii_def)
  with e obtain srv where s: "main ?e = Serving srv"
    using startup_credential [of ?e] by blast
  with e have p: "published (main ?e) = Some list_tools"
    and h: "\<forall>up name arguments.
              \<forall>req\<in>set (fst (call_tool up (notion_client srv) name arguments)).
                req_headers req =
                  [(''Authorization'', ''Bearer '' @ ''secret''),
                   (''Notion-Version'', ''2022-06-28''),
                   (''Content-Type'', ''application/json'')]"
    using startup_credential [of ?e] by blast+
  have "\<exists>req. fst (call_tool (fails ConnectError ''refused'') (notion_client srv) ''get_page''
                     [(''page_id'', JStr ''p1'')]) = [req]"
    by (simp add: fst_call_tool dispatch_def getitem_def get_page_def fst_client_call)
  then obtain req where
    q: "fst (call_tool (fails ConnectError ''refused'') (notion_client srv) ''get_page''
               [(''page_id'', JStr ''p1'')]) = [req]"
    by blast
  have "req_headers req =
          [(''Authorization'', ''Bearer secret''), (''Notion-Version'', ''2022-06-28''),
           (''Content-Type'', ''application/json'')]"
    using h [rule_format, of req "fails ConnectError ''refused''" "''get_page''"
               "[(''page_id'', JStr ''p1'')]"] q
    by simp
  with q s p have b: "\<exists>srv. main ?e = Serving srv \<and> published (main ?e) = Some list_tools
        \<and> map req_headers
             (fst (call_tool (fails ConnectError ''refused'') (notion_client srv) ''get_page''
                     [(''page_id'', JStr ''p1'')]))
            = [[(''Authorization'', ''Bearer secret''), (''Notion-Version'', ''2022-06-28''),
                (''Content-Type'', ''application/json'')]]"
    by simp
  have x: "?x ''NOTION_TOKEN'' = Some [CHR 0xE9] \<and> [CHR 0xE9] \<noteq> []" by simp
  have "\<not> list_all is_ascii [CHR 0xE9]" by (simp add: is_ascii_def)
  with x have c: "(\<exists>e. main ?x = Unhandled e) \<and> published (main ?x) = None"
    using startup_credential [of ?x] by blast
  from a b c show ?thesis by blast
qed

section \<open>Page creation\<close>

lemma setitem_str_keys:
  "str_keys d \<Longrightarrow> str_keys (setitem (KStr k) v d)"
  by (induction d) (auto simp: str_keys_def split: pykey.splits)

lemma setitem_as_update:
  "str_keys d \<Longrightarrow>
   map (\<lambda>kv. (key_text (fst kv), snd kv)) (setitem (KStr k) v d) =
   AList.update k v (map (\<lambda>kv. (key_text (fst kv), snd kv)) d)"
  by (induction d) (auto simp: str_keys_def split: pykey.splits)

lemma fold_setitem_as_update:
  "str_keys d \<Longrightarrow>
   map (\<lambda>kv. (key_text (fst kv), snd kv))
     (fold (\<lambda>kv. setitem (KStr (fst kv)) (snd kv)) kvs d) =
   fold (\<lambda>kv. AList.update (fst kv) (snd kv)) kvs (map (\<lambda>kv. (key_text (fst kv), snd kv)) d)"
  by (induction kvs arbitrary: d) (simp_all add: setitem_str_keys setitem_as_update)

lemma map_of_fold_update:
  "distinct (map fst kvs) \<Longrightarrow>
   map_of (fold (\<lambda>kv. AList.update (fst kv) (snd kv)) kvs al) k =
     (case map_of kvs k of Some v \<Rightarrow> Some v | None \<Rightarrow> map_of al k)"
proof (induction kvs arbitrary: al)
  case Nil
  then show ?case by simp
next
  case (Cons kv kvs)
  then have n: "map_of kvs (fst kv) = None" by (simp add: map_of_eq_None_iff)
  from Cons show ?case
    by (cases "k = fst kv") (simp_all add: update_conv' n split: option.splits)
qed

lemma keys_update: "fst ` set (AList.update k v al) = insert k (fst ` set al)"
  by (simp add: dom_map_of_conv_image_fst [symmetric] update_conv')

lemma keys_fold_update:
  "fst ` set (fold (\<lambda>kv. AList.update (fst kv) (snd kv)) kvs al) =
     fst ` set al \<union> fst ` set kvs"
  by (induction kvs arbitrary: al) (simp_all add: keys_update)

lemma distinct_fold_update:
  "distinct (map fst al) \<Longrightarrow>
   distinct (map fst (fold (\<lambda>kv. AList.update (fst kv) (snd kv)) kvs al))"
  by (induction kvs arbitrary: al) (simp_all add: distinct_update)

lemma create_page_props:
  assumes "mapping_or_none a"
  shows "(if truthy (case a of None \<Rightarrow> JNull | Some v \<Rightarrow> v)
          then dict_update gen (case a of None \<Rightarrow> JNull | Some v \<Rightarrow> v) else Inr gen) =
         Inr (fold (\<lambda>kv. setitem (KStr (fst kv)) (snd kv)) (mapping_items a) gen)"
  using assms by (cases a rule: mapping_or_none.cases) auto

lemma fst_dispatch_create_page:
  assumes "map_of arguments ''parent_id'' = Some P" and "map_of arguments ''title'' = Some T"
    and "mapping_or_none (map_of arguments ''properties'')"
  shows "fst (dispatch up notion ''create_page'' arguments) =
     [\<lparr> req_method = ''POST'', req_url = NOTION_API_BASE @ ''/pages'',
        req_headers = headers notion,
        req_json = Some (JObj
          [(''parent'', JObj [(''page_id'', P)]),
           (''properties'', JObj
              (fold (\<lambda>kv. AList.update (fst kv) (snd kv))
                 (mapping_items (map_of arguments ''properties''))
                 [(''title'', JObj [(''title'', JArr [JObj [(''text'', JObj [(''content'', T)])]])])]))])
      \<rparr>]"
proof -
  let ?gen = "[(KStr ''title'', JObj [(''title'', JArr [JObj [(''text'', JObj [(''content'', T)])]])])]"
  have k: "str_keys ?gen" by (simp add: str_keys_def)
  have d: "dispatch up notion ''create_page'' arguments =
           create_page up notion P T (dict_get arguments ''properties'' JNull)"
    using assms(1,2) by (simp add: dispatch_def getitem_def)
  show ?thesis
    unfolding d create_page_def Let_def dict_get_def create_page_props [OF assms(3)]
    by (simp add: fst_client_call as_json_object_def fold_setitem_as_update [OF k])
qed

text \<open>
  C3. A \<^verbatim>\<open>create_page\<close> invocation with a parent id and a title, whose \<^verbatim>\<open>properties\<close>
  argument is a mapping (or absent), makes one request. In its body \<^verbatim>\<open>parent.page_id\<close> is
  the parent id; every entry of the supplied mapping is an entry of \<^verbatim>\<open>properties\<close>; the
  keys of \<^verbatim>\<open>properties\<close> are \<^verbatim>\<open>title\<close> and the supplied keys, each once; and unless the
  supplied mapping has the key \<^verbatim>\<open>title\<close> itself, the \<^verbatim>\<open>title\<close> entry is the generated one,
  whose \<^verbatim>\<open>title[0].text.content\<close> is the title.
\<close>

theorem create_page_body:
  assumes "map_of arguments ''parent_id'' = Some P" and "map_of arguments ''title'' = Some T"
    and "mapping_or_none (map_of arguments ''properties'')"
    and "distinct (map fst (mapping_items (map_of arguments ''properties'')))"
  shows "\<exists>req props.
      fst (call_tool up notion ''create_page'' arguments) = [req]
    \<and> req_json req = Some (JObj [(''parent'', JObj [(''page_id'', P)]),
                                 (''properties'', JObj props)])
    \<and> (\<forall>k v. (k, v) \<in> set (mapping_items (map_of arguments ''properties'')) \<longrightarrow>
               map_of props k = Some v)
    \<and> (''title'' \<notin> fst ` set (mapping_items (map_of arguments ''properties'')) \<longrightarrow>
          map_of props ''title'' =
            Some (JObj [(''title'', JArr [JObj [(''text'', JObj [(''content'', T)])]])]))
    \<and> fst ` set props =
          insert ''title'' (fst ` set (mapping_items (map_of arguments ''properties'')))
    \<and> distinct (map fst props)"
proof -
  let ?extra = "mapping_items (map_of arguments ''properties'')"
  let ?G = "JObj [(''title'', JArr [JObj [(''text'', JObj [(''content'', T)])]])]"
  let ?props = "fold (\<lambda>kv. AList.update (fst kv) (snd kv)) ?extra [(''title'', ?G)]"
  let ?req = "\<lparr> req_method = ''POST'', req_url = NOTION_API_BASE @ ''/pages'',
        req_headers = headers notion,
        req_json = Some (JObj [(''parent'', JObj [(''page_id'', P)]),
                               (''properties'', JObj ?props)]) \<rparr>"
  have A: "fst (call_tool up notion ''create_page'' arguments) = [?req]"
    by (simp only: fst_call_tool fst_dispatch_create_page [OF assms(1-3)])
  have B: "req_json ?req = Some (JObj [(''parent'', JObj [(''page_id'', P)]),
                                       (''properties'', JObj ?props)])"
    by simp
  have C: "\<forall>k v. (k, v) \<in> set ?extra \<longrightarrow> map_of ?props k = Some v"
    using assms(4) by (simp add: map_of_fold_update)
  have D: "''title'' \<notin> fst ` set ?extra \<longrightarrow> map_of ?props ''title'' = Some ?G"
  proof
    assume "''title'' \<notin> fst ` set ?extra"
    then have "map_of ?extra ''title'' = None" by (simp add: map_of_eq_None_iff)
    then show "map_of ?props ''title'' = Some ?G"
      using assms(4) by (simp add: map_of_fold_update)
  qed
  have E: "fst ` set ?props = insert ''title'' (fst ` set ?extra)"
    by (simp add: keys_fold_update)
  have F: "distinct (map fst ?props)"
    by (rule distinct_fold_update) simp
  from A B C D E F show ?thesis by blast
qed

theorem create_page_body_witness:
  "map_of 
     [(''parent_id'', JStr ''P''), (''title'', JStr ''T''),
      (''properties'', JObj [(''Status'', JObj [(''select'', JStr ''Done'')])])] ''parent_id'' = Some (JStr ''P'')
   \<and> map_of 
     [(''parent_id'', JStr ''P''), (''title'', JStr ''T''),
      (''properties'', JObj [(''Status'', JObj [(''select'', JStr ''Done'')])])] ''title'' = Some (JStr ''T'')
   \<and> mapping_or_none (map_of 
     [(''parent_id'', JStr ''P''), (''title'', JStr ''T''),
      (''properties'', JObj [(''Status'', JObj [(''select'', JStr ''Done'')])])] ''properties'')
   \<and> distinct (map fst (mapping_items (map_of 
     [(''parent_id'', JStr ''P''), (''title'', JStr ''T''),
      (''properties'', JObj [(''Status'', JObj [(''select'', JStr ''Done'')])])] ''properties'')))
   \<and> map req_json (fst (call_tool (fails ReadTimeout ''timed out'') sample_notion
         ''create_page'' 
     [(''parent_id'', JStr ''P''), (''title'', JStr ''T''),
      (''properties'', JObj [(''Status'', JObj [(''select'', JStr ''Done'')])])])) =
       [Some (JObj
          [(''parent'', JObj [(''page_id'', JStr ''P'')]),
           (''properties'', JObj
              [(''title'', JObj [(''title'', JArr [JObj [(''text'',
                                   JObj [(''content'', JStr ''T'')])]])]),
               (''Status'', JObj [(''select'', JStr ''Done'')])])])]"
proof -
  have h1: "map_of 
     [(''parent_id'', JStr ''P''), (''title'', JStr ''T''),
      (''properties'', JObj [(''Status'', JObj [(''select'', JStr ''Done'')])])] ''parent_id'' = Some (JStr ''P'')" by simp
  have h2: "map_of 
     [(''parent_id'', JStr ''P''), (''title'', JStr ''T''),
      (''properties'', JObj [(''Status'', JObj [(''select'', JStr ''Done'')])])] ''title'' = Some (JStr ''T'')" by simp
  have h3: "mapping_or_none (map_of 
     [(''parent_id'', JStr ''P''), (''title'', JStr ''T''),
      (''properties'', JObj [(''Status'', JObj [(''select'', JStr ''Done'')])])] ''properties'')" by simp
  have h4: "distinct (map fst (mapping_items (map_of 
     [(''parent_id'', JStr ''P''), (''title'', JStr ''T''),
      (''properties'', JObj [(''Status'', JObj [(''select'', JStr ''Done'')])])] ''properties'')))" by simp
  have e: "mapping_items (map_of 
     [(''parent_id'', JStr ''P''), (''title'', JStr ''T''),
      (''properties'', JObj [(''Status'', JObj [(''select'', JStr ''Done'')])])] ''properties'') =
             [(''Status'', JObj [(''select'', JStr ''Done'')])]" by simp
  show ?thesis
    using create_page_body [OF h1 h2 h3 h4, of "fails ReadTimeout ''timed out''" sample_notion]
      h1 h2 h3 h4
    by (simp only: fst_call_tool fst_dispatch_create_page [OF h1 h2 h3] e) simp
qed

section \<open>Results of an invocation\<close>

lemma search_via_client:
  "\<exists>meth u p. search up self query filter_type = client_call up self meth u p"
  unfolding search_def Let_def by blast

lemma get_page_via_client:
  "\<exists>meth u p. get_page up self page_id = client_call up self meth u p"
  unfolding get_page_def by blast

lemma create_page_via_client:
  "(\<exists>e. create_page up self parent_id title properties = ([], Inl e))
   \<or> (\<exists>meth u p. create_page up self parent_id title properties = client_call up self meth u p)"
proof (cases "if truthy properties
              then dict_update [(KStr ''title'',
                     JObj [(''title'', JArr [JObj [(''text'', JObj [(''content'', title)])]])])]
                     properties
              else Inr [(KStr ''title'',
                     JObj [(''title'', JArr [JObj [(''text'', JObj [(''content'', title)])]])])]")
  case (Inl e)
  then show ?thesis unfolding create_page_def Let_def by simp
next
  case (Inr d)
  then have "\<exists>meth u p. create_page up self parent_id title properties = client_call up self meth u p"
    unfolding create_page_def Let_def by (simp only: sum.case) blast
  then show ?thesis ..
qed

lemma update_page_via_client:
  "\<exists>meth u p. update_page up self page_id properties = client_call up self meth u p"
  unfolding update_page_def by blast

lemma query_database_via_client:
  "\<exists>meth u p. query_database up self database_id filter_obj sorts = client_call up self meth u p"
  unfolding query_database_def Let_def by blast

lemma get_block_children_via_client:
  "\<exists>meth u p. get_block_children up self block_id = client_call up self meth u p"
  unfolding get_block_children_def by blast

lemma append_block_children_via_client:
  "\<exists>meth u p. append_block_children up self block_id children = client_call up self meth u p"
  unfolding append_block_children_def by blast

lemma dispatch_via_client:
  "(\<exists>e. dispatch up notion name arguments = ([], Inl e))
   \<or> (\<exists>meth u p. dispatch up notion name arguments = client_call up notion meth u p)"
  unfolding dispatch_def
  using search_via_client get_page_via_client create_page_via_client update_page_via_client
    query_database_via_client get_block_children_via_client append_block_children_via_client
  by (simp split: sum.splits)

lemma snd_client_call:
  "snd (client_call up self meth u p) =
     (case up \<lparr> req_method = meth, req_url = u, req_headers = headers self, req_json = p \<rparr> of
        Raises k m \<Rightarrow> Inl (TransportError k m)
      | Response r \<Rightarrow>
          if is_success r then response_json r
          else Inl (HTTPStatusError (status_message r) r))"
  by (simp add: client_call_def Let_def raise_for_status_def split: reply.splits)

lemma dispatch_one_call:
  assumes "fst (dispatch up notion name arguments) = [req]"
  shows "snd (dispatch up notion name arguments) =
     (case up req of
        Raises k m \<Rightarrow> Inl (TransportError k m)
      | Response r \<Rightarrow>
          if is_success r then response_json r
          else Inl (HTTPStatusError (status_message r) r))"
proof -
  from dispatch_via_client [of up notion name arguments] assms
  obtain meth u p where d: "dispatch up notion name arguments = client_call up notion meth u p"
    by auto
  with assms have "req = \<lparr> req_method = meth, req_url = u, req_headers = headers notion,
                            req_json = p \<rparr>"
    by (simp add: fst_client_call)
  then show ?thesis by (simp add: d snd_client_call split: reply.splits)
qed

lemma dispatch_success:
  assumes "dispatch up notion name arguments = (calls, Inr result)"
  shows "\<exists>req r. calls = [req] \<and> up req = Response r \<and> is_success r \<and> body_json r = Inr result"
proof -
  from dispatch_via_client [of up notion name arguments] assms
  obtain meth u p where d: "dispatch up notion name arguments = client_call up notion meth u p"
    by auto
  let ?req = "\<lparr> req_method = meth, req_url = u, req_headers = headers notion, req_json = p \<rparr>"
  have c: "calls = [?req]" using assms d fst_client_call [of up notion meth u p] by simp
  have "snd (client_call up notion meth u p) = Inr result" using assms d by simp
  then have "\<exists>r. up ?req = Response r \<and> is_success r \<and> body_json r = Inr result"
    by (auto simp: snd_client_call response_json_def
          split: reply.splits if_splits sum.splits decode_error.splits)
  with c show ?thesis by blast
qed

text \<open>
  C1. Whatever the name and the argument mapping, and whatever the upstream does, the
  handler hands back exactly one item of type \<^verbatim>\<open>text\<close>. Its text is \<^verbatim>\<open>json.dumps\<close> with indent
  2 either of the body decoded from a successful response to the one request made, or of
  an object with the keys \<^verbatim>\<open>error\<close> and \<^verbatim>\<open>type\<close>; every exception of the invocation ends in
  the second form.
\<close>

theorem call_tool_one_text_item:
  "\<exists>txt. snd (call_tool up notion name arguments) =
           [\<lparr> content_type = ''text'', content_text = txt \<rparr>]
     \<and> ((\<exists>req r body. fst (call_tool up notion name arguments) = [req]
            \<and> up req = Response r \<and> is_success r \<and> body_json r = Inr body
            \<and> txt = dumps 2 body)
         \<or> (\<exists>msg ty. txt = dumps 2 (JObj [(''error'', JStr msg), (''type'', JStr ty)])))"
proof (cases "dispatch up notion name arguments")
  case (Pair calls res)
  show ?thesis
  proof (cases res)
    case (Inl e)
    with Pair have "snd (call_tool up notion name arguments) =
        [\<lparr> content_type = ''text'',
           content_text = dumps 2 (JObj [(''error'', JStr (exn_str e)),
                                          (''type'', JStr (exn_name e))]) \<rparr>]"
      by (simp add: call_tool_def text_content_def error_object_def)
    then show ?thesis by blast
  next
    case (Inr result)
    with Pair obtain req r where
      "calls = [req]" "up req = Response r" "is_success r" "body_json r = Inr result"
      using dispatch_success by blast
    moreover from Pair Inr have "call_tool up notion name arguments =
        (calls, [\<lparr> content_type = ''text'', content_text = dumps 2 result \<rparr>])"
      by (simp add: call_tool_def text_content_def)
    ultimately show ?thesis by auto
  qed
qed

section \<open>Upstream failures\<close>

lemma status_message_has_code:
  "\<exists>pre post. status_message r = pre @ dec (status_code r) @ post"
proof -
  have "status_message r =
      (error_type (status_code r) @ '' '' @ [CHR 0x27]) @ dec (status_code r)
      @ ('' '' @ reason_phrase r @ [CHR 0x27]
         @ '' for url '' @ quoted (response_url r) @ [CHR 0x0A]
         @ (case location r of
              Some loc \<Rightarrow>
                if has_redirect_location r
                then ''Redirect location: '' @ quoted loc @ [CHR 0x0A] else []
            | None \<Rightarrow> [])
         @ ''For more information check: https://developer.mozilla.org/en-US/docs/Web/HTTP/Status/''
         @ dec (status_code r))"
    by (simp add: status_message_def quoted_def)
  then show ?thesis by blast
qed

lemma status_message_body:
  "status_message (r\<lparr> body_text := b, body_json := j \<rparr>) = status_message r"
  by (simp add: status_message_def has_redirect_location_def split: option.splits)

lemma call_tool_error:
  "snd (dispatch up notion name arguments) = Inl e \<Longrightarrow>
   snd (call_tool up notion name arguments) =
     [text_content (dumps 2 (JObj [(''error'', JStr (exn_str e)), (''type'', JStr (exn_name e))]))]"
  by (cases "dispatch up notion name arguments")
     (simp add: call_tool_def error_object_def)

text \<open>
  C6, as the code has it. When the one request of an invocation is answered with a status
  outside 200..299, the method raises \<^verbatim>\<open>HTTPStatusError\<close>, which holds the response (status
  code and body text); the Result has the type \<^verbatim>\<open>HTTPStatusError\<close> and, as message, the
  status line message (status code, reason phrase and the URL the response reports): it
  contains the status code and is the same whatever the body of the response. When the
  request raises a transport error, the Result has its message and its class name as type,
  and the class names of the timeouts and network errors differ from \<^verbatim>\<open>HTTPStatusError\<close>.
\<close>

theorem upstream_failures:
  assumes "fst (call_tool up notion name arguments) = [req]"
  shows "(\<forall>r. up req = Response r \<and> \<not> is_success r \<longrightarrow>
            snd (dispatch up notion name arguments) =
              Inl (HTTPStatusError (status_message r) r)
          \<and> snd (call_tool up notion name arguments) =
              [text_content (dumps 2
                 (JObj [(''error'', JStr (status_message r)),
                        (''type'', JStr ''HTTPStatusError'')]))]
          \<and> (\<exists>pre post. status_message r = pre @ dec (status_code r) @ post)
          \<and> (\<forall>b j. status_message (r\<lparr> body_text := b, body_json := j \<rparr>)
                     = status_message r))
       \<and> (\<forall>k m. up req = Raises k m \<longrightarrow>
            snd (call_tool up notion name arguments) =
              [text_content (dumps 2
                 (JObj [(''error'', JStr m), (''type'', JStr (httpx_error_name k))]))])
       \<and> (\<forall>k\<in>{ConnectTimeout, ReadTimeout, WriteTimeout, PoolTimeout,
                ConnectError, ReadError, WriteError, CloseError}.
             httpx_error_name k \<noteq> ''HTTPStatusError'')"
proof -
  from assms have f: "fst (dispatch up notion name arguments) = [req]"
    by (simp add: fst_call_tool)
  note d = dispatch_one_call [OF f]
  have 1: "snd (dispatch up notion name arguments) =
             Inl (HTTPStatusError (status_message r) r)
          \<and> snd (call_tool up notion name arguments) =
              [text_content (dumps 2
                 (JObj [(''error'', JStr (status_message r)),
                        (''type'', JStr ''HTTPStatusError'')]))]
          \<and> (\<exists>pre post. status_message r = pre @ dec (status_code r) @ post)
          \<and> (\<forall>b j. status_message (r\<lparr> body_text := b, body_json := j \<rparr>)
                     = status_message r)"
    if "up req = Response r \<and> \<not> is_success r" for r
  proof -
    from that have e: "snd (dispatch up notion name arguments) =
             Inl (HTTPStatusError (status_message r) r)"
      by (simp add: d)
    from call_tool_error [OF e] e status_message_has_code [of r] status_message_body
    show ?thesis by simp
  qed
  have 2: "snd (call_tool up notion name arguments) =
              [text_content (dumps 2
                 (JObj [(''error'', JStr m), (''type'', JStr (httpx_error_name k))]))]"
    if "up req = Raises k m" for k m
  proof -
    from that have e: "snd (dispatch up notion name arguments) = Inl (TransportError k m)"
      by (simp add: d)
    from call_tool_error [OF e] show ?thesis by simp
  qed
  have 3: "\<forall>k\<in>{ConnectTimeout, ReadTimeout, WriteTimeout, PoolTimeout,
                ConnectError, ReadError, WriteError, CloseError}.
             httpx_error_name k \<noteq> ''HTTPStatusError''"
    by simp
  from 1 2 3 show ?thesis by blast
qed

lemma fst_get_page_p1:
  "fst (call_tool up sample_notion ''get_page'' [(''page_id'', JStr ''p1'')]) =
     [\<lparr> req_method = ''GET'', req_url = ''https://api.notion.com/v1/pages/p1'',
        req_headers = headers sample_notion, req_json = None \<rparr>]"
  by (simp add: fst_call_tool dispatch_def getitem_def get_page_def fst_client_call
        NOTION_API_BASE_def)

theorem upstream_failures_witness:
  "snd (call_tool (answers ''https://api.notion.com/v1/pages/p1'' 404 ''Not Found'' ''ZZZ''
          (Inl (JSONDecode ''Z''))) sample_notion ''get_page''
          [(''page_id'', JStr ''p1'')]) =
     [text_content (dumps 2
        (JObj [(''error'', JStr (status_message
                  \<lparr> status_code = 404, reason_phrase = ''Not Found'',
                     response_url = ''https://api.notion.com/v1/pages/p1'', location = None,
                     body_text = ''ZZZ'', body_json = Inl (JSONDecode ''Z'') \<rparr>)),
               (''type'', JStr ''HTTPStatusError'')]))]
   \<and> snd (call_tool (fails ReadTimeout ''timed out'') sample_notion ''get_page''
          [(''page_id'', JStr ''p1'')]) =
     [text_content (dumps 2
        (JObj [(''error'', JStr ''timed out''), (''type'', JStr ''ReadTimeout'')]))]
   \<and> httpx_error_name ReadTimeout \<noteq> ''HTTPStatusError''"
proof -
  let ?req = "\<lparr> req_method = ''GET'', req_url = ''https://api.notion.com/v1/pages/p1'',
                 req_headers = headers sample_notion, req_json = None \<rparr>"
  let ?r = "\<lparr> status_code = 404, reason_phrase = ''Not Found'',
                     response_url = ''https://api.notion.com/v1/pages/p1'', location = None,
               body_text = ''ZZZ'', body_json = Inl (JSONDecode ''Z'') \<rparr>"
  have u1: "answers ''https://api.notion.com/v1/pages/p1'' 404 ''Not Found'' ''ZZZ''
          (Inl (JSONDecode ''Z'')) ?req = Response ?r \<and> \<not> is_success ?r"
    by (simp add: answers_def is_success_def)
  have u2: "fails ReadTimeout ''timed out'' ?req = Raises ReadTimeout ''timed out''"
    by (simp add: fails_def)
  have a: "snd (call_tool (answers ''https://api.notion.com/v1/pages/p1'' 404 ''Not Found'' ''ZZZ''
          (Inl (JSONDecode ''Z''))) sample_notion
                  ''get_page'' [(''page_id'', JStr ''p1'')]) =
     [text_content (dumps 2
        (JObj [(''error'', JStr (status_message ?r)),
               (''type'', JStr ''HTTPStatusError'')]))]"
    using upstream_failures [OF fst_get_page_p1, of "answers ''https://api.notion.com/v1/pages/p1'' 404 ''Not Found'' ''ZZZ''
          (Inl (JSONDecode ''Z''))"]
      u1 by blast
  have b: "snd (call_tool (fails ReadTimeout ''timed out'') sample_notion ''get_page''
          [(''page_id'', JStr ''p1'')]) =
     [text_content (dumps 2
        (JObj [(''error'', JStr ''timed out''),
               (''type'', JStr (httpx_error_name ReadTimeout))]))]"
    using upstream_failures [OF fst_get_page_p1, of "fails ReadTimeout ''timed out''"] u2
    by blast
  have c: "httpx_error_name ReadTimeout \<noteq> ''HTTPStatusError''"
    using upstream_failures [OF fst_get_page_p1, of "fails ReadTimeout ''timed out''"]
    by blast
  from a b c show ?thesis by simp
qed

text \<open>
  The upstream answers a \<^verbatim>\<open>get_page\<close> request with status 404 and the body \<^verbatim>\<open>ZZZ\<close>. The
  Result holds the status line message and the type; the body is not in it (the text has no
  \<^verbatim>\<open>Z\<close> at all).
\<close>

theorem failure_message_omits_body:
  "snd (call_tool (answers ''https://api.notion.com/v1/pages/p1'' 404 ''Not Found'' ''ZZZ''
          (Inl (JSONDecode ''Z''))) sample_notion ''get_page''
          [(''page_id'', JStr ''p1'')]) =
     [text_content (dumps 2
        (JObj [(''error'', JStr (''Client error '' @ quoted ''404 Not Found'' @ '' for url ''
                  @ quoted ''https://api.notion.com/v1/pages/p1'' @ [CHR 0x0A]
                  @ ''For more information check: https://developer.mozilla.org/en-US/docs/Web/HTTP/Status/404'')),
               (''type'', JStr ''HTTPStatusError'')]))]
   \<and> CHR ''Z'' \<notin> set (concat (map content_text
         (snd (call_tool (answers ''https://api.notion.com/v1/pages/p1'' 404 ''Not Found'' ''ZZZ''
          (Inl (JSONDecode ''Z''))) sample_notion ''get_page''
                 [(''page_id'', JStr ''p1'')]))))"
proof -
  let ?req = "\<lparr> req_method = ''GET'', req_url = ''https://api.notion.com/v1/pages/p1'',
                 req_headers = headers sample_notion, req_json = None \<rparr>"
  let ?r = "\<lparr> status_code = 404, reason_phrase = ''Not Found'',
                     response_url = ''https://api.notion.com/v1/pages/p1'', location = None,
               body_text = ''ZZZ'', body_json = Inl (JSONDecode ''Z'') \<rparr>"
  have d: "dec 404 = ''404''" by code_simp
  have m: "status_message ?r =
      ''Client error '' @ quoted ''404 Not Found'' @ '' for url ''
        @ quoted ''https://api.notion.com/v1/pages/p1'' @ [CHR 0x0A]
        @ ''For more information check: https://developer.mozilla.org/en-US/docs/Web/HTTP/Status/404''"
    by (simp add: status_message_def error_type_def d quoted_def)
  have f: "fst (dispatch (answers ''https://api.notion.com/v1/pages/p1'' 404 ''Not Found'' ''ZZZ''
          (Inl (JSONDecode ''Z''))) sample_notion
                  ''get_page'' [(''page_id'', JStr ''p1'')]) = [?req]"
    using fst_get_page_p1 by (simp add: fst_call_tool)
  have e: "snd (dispatch (answers ''https://api.notion.com/v1/pages/p1'' 404 ''Not Found'' ''ZZZ''
          (Inl (JSONDecode ''Z''))) sample_notion
                  ''get_page'' [(''page_id'', JStr ''p1'')]) =
           Inl (HTTPStatusError (status_message ?r) ?r)"
    by (simp only: dispatch_one_call [OF f]) (simp add: answers_def is_success_def)
  have A: "snd (call_tool (answers ''https://api.notion.com/v1/pages/p1'' 404 ''Not Found'' ''ZZZ''
          (Inl (JSONDecode ''Z''))) sample_notion ''get_page''
          [(''page_id'', JStr ''p1'')]) =
     [text_content (dumps 2
        (JObj [(''error'', JStr (''Client error '' @ quoted ''404 Not Found'' @ '' for url ''
                  @ quoted ''https://api.notion.com/v1/pages/p1'' @ [CHR 0x0A]
                  @ ''For more information check: https://developer.mozilla.org/en-US/docs/Web/HTTP/Status/404'')),
               (''type'', JStr ''HTTPStatusError'')]))]"
    using call_tool_error [OF e] by (simp only: exn_str.simps exn_name.simps m)
  show ?thesis by (simp only: A) code_simp
qed

section \<open>Decoding what the encoder wrote\<close>

lemma dropWhile_replicate_append: "P x \<Longrightarrow> dropWhile P (replicate n x @ s) = dropWhile P s"
  by (induction n) simp_all

lemma skip_ws_newline_indent [simp]: "skip_ws (newline_indent ind lvl @ s) = skip_ws s"
  by (simp add: skip_ws_def newline_indent_def is_ws_def dropWhile_replicate_append)


lemma hex_val_hex_char: "d < 16 \<Longrightarrow> hex_val (hex_char d) = Some d"
  by (auto simp: hex_val_def hex_char_def Let_def)

lemma hex_val_zero: "hex_val (CHR ''0'') = Some 0"
  by (simp add: hex_val_def)

lemma decode_hex2:
  "decode_uXXXX (CHR ''0'') (CHR ''0'') (hex_char (of_char c div 16)) (hex_char (of_char c mod 16))
     = Some c"
proof -
  have "(of_char c :: nat) < 256" by simp
  then have a: "(of_char c :: nat) div 16 < 16" by (simp add: less_mult_imp_div_less)
  have b: "(of_char c :: nat) mod 16 < 16" by simp
  show ?thesis
    by (simp add: decode_uXXXX_def hex_val_zero hex_val_hex_char [OF a] hex_val_hex_char [OF b])
qed

lemma scanstring_escape_char:
  "scanstring (escape_char c @ t) = cons_result c (scanstring t)"
proof -
  consider (q) "c = CHR 0x22" | (b) "c = CHR 0x5C" | (n) "c = CHR 0x0A" | (r) "c = CHR 0x0D"
    | (t) "c = CHR 0x09" | (bs) "c = CHR 0x08" | (f) "c = CHR 0x0C"
    | (plain) "c \<noteq> CHR 0x22" "c \<noteq> CHR 0x5C" "32 \<le> (of_char c :: nat)" "(of_char c :: nat) < 127"
    | (u) "c \<noteq> CHR 0x22" "c \<noteq> CHR 0x5C" "c \<noteq> CHR 0x0A" "c \<noteq> CHR 0x0D" "c \<noteq> CHR 0x09"
          "c \<noteq> CHR 0x08" "c \<noteq> CHR 0x0C" "\<not> (32 \<le> (of_char c :: nat) \<and> (of_char c :: nat) < 127)"
    by blast
  then show ?thesis
  proof cases
    case plain
    then have "escape_char c = [c]" by (auto simp: escape_char_def)
    with plain show ?thesis by simp
  next
    case u
    then have "escape_char c = [CHR 0x5C, CHR ''u'', CHR ''0'', CHR ''0''] @ hex2 c"
      by (simp add: escape_char_def)
    then show ?thesis by (simp add: hex2_def decode_hex2)
  qed (simp_all add: escape_char_def backslash_def)
qed

lemma scanstring_encoded:
  "scanstring (concat (map escape_char s) @ CHR 0x22 # rest) = Some (s, rest)"
  by (induction s) (simp_all add: scanstring_escape_char cons_result_def del: scanstring.simps, simp)

lemma scanstring_basestring:
  "scanstring (tl (encode_basestring_ascii s) @ rest) = Some (s, rest)"
  by (simp add: encode_basestring_ascii_def scanstring_encoded del: scanstring.simps)










































section \<open>Round trip of a successful result\<close>



end
